theory Spec2Isabelle
  imports Complex_Main "HOL-Library.Sublist" "HOL-Library.Multiset"
begin

section \<open>The agentic feasibility system: data model\<close>

text \<open>
  The development embeds the package \<^verbatim>\<open>agentic_system\<close>: the message models
  (\<^verbatim>\<open>models/messages.py\<close>), the research agent, the technology agent and the
  orchestrator. Conventions of the embedding:

  \<^item> A Python \<^verbatim>\<open>float\<close> is an IEEE 754 double; a finite double is modelled by the real
    number it denotes. The validation mean and the weighted overall score are computed
    with the rounded operations of the section on floating point, because a rounding
    error there can decide a comparison. The confidence formulas of the research agent
    and of the technology agent are written in exact arithmetic.
  \<^item> Python \<^verbatim>\<open>str\<close> values are \<^typ>\<open>string\<close>: lists of 8-bit characters. Case folding,
    white space and digits are the ASCII ones; the bullet U+2022 that the source strips
    from list items is its three UTF-8 bytes.
  \<^item> The reasoning provider (\<^verbatim>\<open>llm_tool.reason\<close>) and the retrieval provider
    (\<^verbatim>\<open>web_search_tool.search\<close>) are external services. They are parameters of the
    model: a function of the number of calls made before and of the request, so that two
    calls with equal arguments may answer differently. Every branch of
    \<^verbatim>\<open>LLMTool.reason\<close> returns a string (provider errors are caught and turned into
    text), so the reasoning provider is total.
  \<^item> Console output is not modelled. Fields of the message models that only carry text
    extracted for the report (findings, risks, opportunities, assumptions, gaps,
    recommendations, evidence, next steps) are left out; no modelled operation reads them
    to decide a branch or to compute a number.
  \<^item> Three fields of the state are bookkeeping of the model and not fields of the source:
    \<open>llm_calls\<close> and \<open>search_log\<close> record the calls made to the two providers, and
    \<open>phase_log\<close> records every assignment to \<^verbatim>\<open>self.current_phase\<close> in order.
\<close>

datatype AnalysisPhase =
  PLANNING | INFORMATION_GATHERING | PARALLEL_ANALYSIS | VALIDATION | REFINEMENT
  | SYNTHESIS | COMPLETE

datatype ConfidenceLevel = VERY_LOW | LOW | MEDIUM | HIGH | VERY_HIGH

text \<open>
  \<open>ZeroDivisionError\<close> is Python's. \<open>ConfigurationError\<close> is the error class of the
  specification's taxonomy; the source defines no such class and no operation below
  returns it.
\<close>

datatype error = ZeroDivisionError | ConfigurationError

record ProjectAnalysisRequest =
  project_description :: string
  project_name :: string
  requester_address :: string
  analysis_depth :: string

record AnalysisStrategy =
  needs_external_research :: bool
  research_queries :: "string list"
  priority_dimensions :: "string list"
  estimated_time :: string

record OrchestratorDecision =
  od_phase :: AnalysisPhase
  od_action :: string
  od_reasoning :: string
  agents_to_spawn :: "string list"
  od_confidence :: real

record ResearchRequest =
  queries :: "string list"
  information_type :: string
  rr_context :: string
  priority :: string

text \<open>One record of a retrieval result: the dictionary with the keys title, url, snippet, source.\<close>

record search_result =
  title :: string
  url :: string
  snippet :: string
  source :: string

record ResearchFindings =
  rf_query :: string
  findings :: "search_result list"
  sources :: "string list"
  rf_confidence :: real
  relevance_score :: real
  agent_reasoning :: string

record AnalysisRequest =
  ar_project_description :: string
  ar_research_findings :: "ResearchFindings list"
  iteration_number :: nat

record DimensionAnalysis =
  dimension :: string
  score :: real
  confidence :: ConfidenceLevel
  reasoning :: string

text \<open>The dictionary returned by \<^verbatim>\<open>_validate_analyses\<close>; \<open>v_confidence\<close> is its key \<^verbatim>\<open>'confidence'\<close>.\<close>

record validation =
  v_confidence :: real
  is_consistent :: bool
  consistency_check :: string
  needs_refinement :: bool

record FinalDecision =
  overall_feasibility :: string
  overall_score :: real
  fd_confidence :: ConfidenceLevel
  decision_reasoning :: string
  recommendation :: string
  dimension_scores :: "string \<rightharpoonup> real"
  analysis_quality :: string
  limitations_iterations :: nat

text \<open>
  The two external providers. \<open>llm k prompt\<close> is the text the reasoning provider returns
  on its call number \<open>k\<close> (counted from 0); \<open>web_search k query n\<close> is the result list of
  the retrieval call number \<open>k\<close> for \<open>query\<close> with \<^verbatim>\<open>num_results = n\<close>.
\<close>

record providers =
  llm :: "nat \<Rightarrow> string \<Rightarrow> string"
  web_search :: "nat \<Rightarrow> string \<Rightarrow> nat \<Rightarrow> search_result list"

text \<open>
  The state of one \<^verbatim>\<open>OrchestratorAgent\<close> instance with its research agent
  (\<open>findings_cache\<close>) and the bookkeeping fields.
\<close>

record system =
  llm_calls :: nat
  search_log :: "string list"
  phase_log :: "AnalysisPhase list"
  findings_cache :: "string \<rightharpoonup> ResearchFindings"
  current_phase :: AnalysisPhase
  iteration :: nat
  confidence_threshold :: real
  max_iterations :: nat
  decisions :: "OrchestratorDecision list"
  all_analyses :: "DimensionAnalysis list"

text \<open>\<^verbatim>\<open>Config.CONFIDENCE_THRESHOLD\<close> and \<^verbatim>\<open>Config.MAX_ITERATIONS\<close>.\<close>

definition CONFIDENCE_THRESHOLD :: real where
  "CONFIDENCE_THRESHOLD = 0.75"

definition MAX_ITERATIONS :: nat where
  "MAX_ITERATIONS = 3"

text \<open>\<^verbatim>\<open>OrchestratorAgent.__init__\<close>: a fresh orchestrator, no provider called yet.\<close>

definition init_system :: system where
  "init_system =
     \<lparr>llm_calls = 0, search_log = [], phase_log = [], findings_cache = Map.empty,
      current_phase = PLANNING, iteration = 0,
      confidence_threshold = CONFIDENCE_THRESHOLD, max_iterations = MAX_ITERATIONS,
      decisions = [], all_analyses = []\<rparr>"

section \<open>Floating point\<close>

text \<open>
  \<open>fl x\<close> is the double nearest to the real number \<open>x\<close>: the significand has 53 bits,
  a tie goes to the even significand, and below \<open>2 ^ -1022\<close> the spacing stays
  \<open>2 ^ -1074\<close> (gradual underflow). A nonzero \<open>x\<close> is scaled by powers of two until
  \<open>2 ^ 52 \<le> \<bar>x\<bar> / 2 ^ e < 2 ^ 53\<close> (or \<open>e\<close> reaches \<open>-1074\<close>), and the scaled value is
  rounded to an integer. Infinities and NaN are not modelled: the exponent is not
  bounded above, so the model covers the computations whose results stay below the
  largest double, about \<open>1.8 * 10 ^ 308\<close>.
\<close>

definition round_even :: "real \<Rightarrow> int" where
  "round_even y =
     (let f = \<lfloor>y\<rfloor>; d = y - of_int f
      in if d < 1 / 2 then f else if d > 1 / 2 then f + 1 else if even f then f else f + 1)"

function norm_down :: "real \<Rightarrow> int \<Rightarrow> real \<times> int" where
  "norm_down y e = (if y \<ge> 2 ^ 53 then norm_down (y / 2) (e + 1) else (y, e))"
  by pat_completeness auto
termination
proof (relation "measure (\<lambda>(y, e). nat \<lceil>y\<rceil>)")
  show "wf (measure (\<lambda>(y, e). nat \<lceil>y\<rceil>))" by simp
next
  fix y :: real and e :: int
  assume a: "2 ^ 53 \<le> y"
  then have "y / 2 \<le> y - 1" by simp
  then have "\<lceil>y / 2\<rceil> \<le> \<lceil>y\<rceil> - 1" by linarith
  moreover have "0 < \<lceil>y\<rceil>" using a by simp
  ultimately show "((y / 2, e + 1), (y, e)) \<in> measure (\<lambda>(y, e). nat \<lceil>y\<rceil>)"
    by simp
qed

function norm_up :: "real \<Rightarrow> int \<Rightarrow> real \<times> int" where
  "norm_up y e = (if y < 2 ^ 52 \<and> e > - 1074 then norm_up (y * 2) (e - 1) else (y, e))"
  by pat_completeness auto
termination
  by (relation "measure (\<lambda>(y, e). nat (e + 1074))") auto

definition pow2 :: "int \<Rightarrow> real" where
  "pow2 k = (if k \<ge> 0 then 2 ^ nat k else 1 / 2 ^ nat (- k))"

definition fl :: "real \<Rightarrow> real" where
  "fl x =
     (if x = 0 then 0
      else (let (y, e) = norm_down \<bar>x\<bar> 0; (z, k) = norm_up y e
            in sgn x * of_int (round_even z) * pow2 k))"

text \<open>The operations \<^verbatim>\<open>+\<close>, \<^verbatim>\<open>*\<close> and \<^verbatim>\<open>/\<close> on floats: the exact result, rounded.\<close>

definition fadd :: "real \<Rightarrow> real \<Rightarrow> real" where
  "fadd x y = fl (x + y)"

definition fmul :: "real \<Rightarrow> real \<Rightarrow> real" where
  "fmul x y = fl (x * y)"

definition fdiv :: "real \<Rightarrow> real \<Rightarrow> real" where
  "fdiv x y = fl (x / y)"

text \<open>
  The built-in \<^verbatim>\<open>sum\<close> on floats: it starts from the integer 0 and adds the items
  from left to right, rounding after each addition. (This is \<^verbatim>\<open>sum\<close> of CPython up to
  version 3.11; from 3.12 on \<^verbatim>\<open>sum\<close> carries a compensation term.)
\<close>

definition fsum :: "real list \<Rightarrow> real" where
  "fsum xs = foldl fadd 0 xs"

section \<open>Text operations\<close>

definition NL :: char where
  "NL = CHR 0x0A"

definition lower_char :: "char \<Rightarrow> char" where
  "lower_char c =
     (case map_of (zip ''ABCDEFGHIJKLMNOPQRSTUVWXYZ'' ''abcdefghijklmnopqrstuvwxyz'') c of
        Some d \<Rightarrow> d | None \<Rightarrow> c)"

definition upper_char :: "char \<Rightarrow> char" where
  "upper_char c =
     (case map_of (zip ''abcdefghijklmnopqrstuvwxyz'' ''ABCDEFGHIJKLMNOPQRSTUVWXYZ'') c of
        Some d \<Rightarrow> d | None \<Rightarrow> c)"

definition lower :: "string \<Rightarrow> string" where
  "lower s = map lower_char s"

definition upper :: "string \<Rightarrow> string" where
  "upper s = map upper_char s"

text \<open>\<^verbatim>\<open>sub in s\<close> on strings: \<open>sub\<close> occurs in \<open>s\<close> as a contiguous block.\<close>

fun py_in :: "string \<Rightarrow> string \<Rightarrow> bool" where
  "py_in sub [] = (sub = [])"
| "py_in sub (c # cs) = (prefix sub (c # cs) \<or> py_in sub cs)"

text \<open>\<^verbatim>\<open>s.split('\n')\<close>: never empty, the empty string gives one empty line.\<close>

fun split_lines :: "string \<Rightarrow> string list" where
  "split_lines [] = [[]]"
| "split_lines (c # cs) =
     (if c = NL then [] # split_lines cs
      else (case split_lines cs of l # ls \<Rightarrow> (c # l) # ls | [] \<Rightarrow> [[c]]))"

definition first_line :: "string \<Rightarrow> string" where
  "first_line s = (case split_lines s of l # ls \<Rightarrow> l | [] \<Rightarrow> [])"

text \<open>\<^verbatim>\<open>sep.join(xs)\<close>.\<close>

fun join :: "string \<Rightarrow> string list \<Rightarrow> string" where
  "join sep [] = []"
| "join sep [x] = x"
| "join sep (x # y # ys) = x @ sep @ join sep (y # ys)"

text \<open>White space of \<^verbatim>\<open>str.strip()\<close> and of \<^verbatim>\<open>\s\<close> in the ASCII range.\<close>

definition is_space :: "char \<Rightarrow> bool" where
  "is_space c \<longleftrightarrow>
     c \<in> set [CHR 0x09, CHR 0x0A, CHR 0x0B, CHR 0x0C, CHR 0x0D,
               CHR 0x1C, CHR 0x1D, CHR 0x1E, CHR 0x1F, CHR 0x20]"

definition strip :: "string \<Rightarrow> string" where
  "strip s = rev (dropWhile is_space (rev (dropWhile is_space s)))"

definition is_digit :: "char \<Rightarrow> bool" where
  "is_digit c \<longleftrightarrow> c \<in> set ''0123456789''"

definition digit_val :: "char \<Rightarrow> nat" where
  "digit_val c =
     (case map_of (zip ''0123456789'' [0, 1, 2, 3, 4, 5, 6, 7, 8, 9]) c of
        Some d \<Rightarrow> d | None \<Rightarrow> 0)"

text \<open>\<^verbatim>\<open>float(ds)\<close> for a non-empty string of decimal digits.\<close>

definition float_of_digits :: "string \<Rightarrow> real" where
  "float_of_digits ds = fl (real (foldl (\<lambda>n c. 10 * n + digit_val c) 0 ds))"

text \<open>The bullet U+2022 in UTF-8.\<close>

definition bullet :: string where
  "bullet = [CHR 0xE2, CHR 0x80, CHR 0xA2]"

text \<open>\<^verbatim>\<open>s.lstrip('-\<bullet>*0123456789. ')\<close>: drop leading characters of the given set.\<close>

function lstrip_marks :: "string \<Rightarrow> string" where
  "lstrip_marks s =
     (case s of
        [] \<Rightarrow> []
      | c # cs \<Rightarrow>
          if c \<in> set ''-*0123456789. '' then lstrip_marks cs
          else if prefix bullet s then lstrip_marks (drop 3 s)
          else s)"
  by pat_completeness auto
termination
  by (relation "measure length") (auto simp: bullet_def prefix_def)

text \<open>
  The regular expressions of the source. Each has the shape
  \<^verbatim>\<open>keyword[:\s]+(\d+)suffix\<close> or \<^verbatim>\<open>(\d+)suffix\<close>. Both repetitions are greedy and the
  character after a maximal run is outside the run's class, so backtracking finds
  nothing new: a match at a position takes the maximal runs. \<^verbatim>\<open>re.search\<close> returns the
  match at the leftmost position that has one; the result is group 1.
\<close>

definition digits_then :: "string \<Rightarrow> string \<Rightarrow> string option" where
  "digits_then sfx s =
     (let ds = takeWhile is_digit s in
      if ds \<noteq> [] \<and> prefix sfx (dropWhile is_digit s) then Some ds else None)"

definition is_sep :: "char \<Rightarrow> bool" where
  "is_sep c \<longleftrightarrow> c = CHR '':'' \<or> is_space c"

definition kw_digits :: "string \<Rightarrow> string \<Rightarrow> string \<Rightarrow> string option" where
  "kw_digits kw sfx s =
     (if prefix kw s then
        (let r = drop (length kw) s in
         if takeWhile is_sep r \<noteq> [] then digits_then sfx (dropWhile is_sep r) else None)
      else None)"

fun re_search :: "(string \<Rightarrow> string option) \<Rightarrow> string \<Rightarrow> string option" where
  "re_search m [] = m []"
| "re_search m (c # cs) =
     (case m (c # cs) of Some g \<Rightarrow> Some g | None \<Rightarrow> re_search m cs)"

section \<open>The tools\<close>

text \<open>
  \<^verbatim>\<open>llm_tool.reason(prompt, ...)\<close>: one call to the reasoning provider. The prompts
  below keep the values the source interpolates and abridge the fixed prose of the
  templates; numbers formatted into a prompt are left out of it.
\<close>

definition reason :: "providers \<Rightarrow> string \<Rightarrow> system \<Rightarrow> string \<times> system" where
  "reason P prompt s = (llm P (llm_calls s) prompt, s\<lparr>llm_calls := llm_calls s + 1\<rparr>)"

text \<open>\<^verbatim>\<open>web_search_tool.search(query, num_results)\<close>: one call to the retrieval provider.\<close>

definition search :: "providers \<Rightarrow> string \<Rightarrow> nat \<Rightarrow> system \<Rightarrow> search_result list \<times> system" where
  "search P query num_results s =
     (web_search P (length (search_log s)) query num_results,
      s\<lparr>search_log := search_log s @ [query]\<rparr>)"

text \<open>\<^verbatim>\<open>llm_tool.synthesize_insights(insights)\<close>.\<close>

definition synthesize_insights :: "providers \<Rightarrow> string list \<Rightarrow> system \<Rightarrow> string \<times> system" where
  "synthesize_insights P insights s = reason P (''Synthesize these insights: '' @ join [NL] insights) s"

section \<open>The research agent\<close>

text \<open>The dictionary returned by \<^verbatim>\<open>_decide_search_strategy\<close>.\<close>

record search_strategy =
  approach :: string
  focus_areas :: "string list"
  ss_reasoning :: string

definition extract_focus_areas :: "string \<Rightarrow> string list" where
  "extract_focus_areas text =
     (let areas = map strip
            (filter (\<lambda>line. py_in ''focus'' (lower line) \<or> py_in ''aspect'' (lower line))
               (split_lines text))
      in if areas \<noteq> [] then areas else [''general research''])"

definition decide_search_strategy ::
  "providers \<Rightarrow> string \<Rightarrow> string \<Rightarrow> string \<Rightarrow> system \<Rightarrow> search_strategy \<times> system" where
  "decide_search_strategy P query info_type ctx s =
     (let (strategy_reasoning, s1) =
            reason P (''You need to research: '' @ query @ '' Information type: '' @ info_type
                      @ '' Context: '' @ ctx) s
      in (\<lparr>approach = (if py_in ''specific'' (lower strategy_reasoning)
                          then ''specific'' else ''broad''),
           focus_areas = extract_focus_areas strategy_reasoning,
           ss_reasoning = strategy_reasoning\<rparr>, s1))"

definition analyze_search_results ::
  "providers \<Rightarrow> search_result list \<Rightarrow> string \<Rightarrow> string \<Rightarrow> system \<Rightarrow> string \<times> system" where
  "analyze_search_results P results query ctx s =
     (let results_summary =
            join [NL] (map (\<lambda>r. ''- '' @ title r @ '': '' @ snippet r) (take 3 results))
      in reason P (''You searched for: '' @ query @ '' Context: '' @ ctx
                   @ '' Top search results: '' @ results_summary) s)"

text \<open>\<^verbatim>\<open>BaseAgenticAgent._extract_score\<close>.\<close>

definition extract_score :: "string \<Rightarrow> real" where
  "extract_score text =
     (case re_search (digits_then ''/100'') text of
        Some g \<Rightarrow> float_of_digits g / 100
      | None \<Rightarrow>
          (case re_search (kw_digits ''score'' []) (lower text) of
             Some g \<Rightarrow> float_of_digits g / 100
           | None \<Rightarrow> 0.70))"

definition assess_relevance ::
  "providers \<Rightarrow> search_result list \<Rightarrow> string \<Rightarrow> system \<Rightarrow> real \<times> system" where
  "assess_relevance P results ctx s =
     (if results = [] then (0, s)
      else
        (let results_text = join '' '' (map snippet (take 3 results));
             (response, s1) =
               reason P (''Context: '' @ ctx @ '' Search results: '' @ take 500 results_text) s
         in (extract_score response, s1)))"

definition assess_research_confidence :: "search_result list \<Rightarrow> string \<Rightarrow> real" where
  "assess_research_confidence results analysis =
     (if results = [] then 0.1
      else
        (let num_sources = length (remdups (map source results));
             source_confidence = min (real num_sources * 0.15) 0.35;
             analysis_confidence =
               (if py_in ''unclear'' (lower analysis) \<or> py_in ''missing'' (lower analysis)
                then 0.4
                else if py_in ''consistent'' (lower analysis) \<or> py_in ''clear'' (lower analysis)
                then 0.75
                else 0.6);
             total_confidence = (source_confidence + analysis_confidence) / 2 + 0.2
         in min total_confidence 0.95))"

definition research_query ::
  "providers \<Rightarrow> string \<Rightarrow> string \<Rightarrow> string \<Rightarrow> system \<Rightarrow> ResearchFindings \<times> system" where
  "research_query P query info_type ctx s =
     (let (strategy, s1) = decide_search_strategy P query info_type ctx s;
          (search_results, s2) = search P query 5 s1;
          (analysis, s3) = analyze_search_results P search_results query ctx s2;
          (relevance, s4) = assess_relevance P search_results ctx s3;
          conf = assess_research_confidence search_results analysis
      in (\<lparr>rf_query = query, findings = search_results,
           sources = map source search_results, rf_confidence = conf,
           relevance_score = relevance, agent_reasoning = analysis\<rparr>, s4))"

text \<open>
  \<^verbatim>\<open>ResearchAgent.analyze\<close>: the loop over \<^verbatim>\<open>request.queries\<close>, with the list of
  findings collected so far as accumulator.
\<close>

fun research_loop ::
  "providers \<Rightarrow> ResearchRequest \<Rightarrow> string list \<Rightarrow> ResearchFindings list \<Rightarrow> system
   \<Rightarrow> ResearchFindings list \<times> system" where
  "research_loop P request [] all_findings s = (all_findings, s)"
| "research_loop P request (query # rest) all_findings s =
     (case findings_cache s query of
        Some cached \<Rightarrow> research_loop P request rest (all_findings @ [cached]) s
      | None \<Rightarrow>
          (let (fs, s1) =
                 research_query P query (information_type request) (rr_context request) s
           in research_loop P request rest (all_findings @ [fs])
                (s1\<lparr>findings_cache := (findings_cache s1)(query \<mapsto> fs)\<rparr>)))"

definition research_agent_analyze ::
  "providers \<Rightarrow> ResearchRequest \<Rightarrow> system \<Rightarrow> ResearchFindings list \<times> system" where
  "research_agent_analyze P request s = research_loop P request (queries request) [] s"

section \<open>The technology agent\<close>

definition plan_analysis :: "providers \<Rightarrow> string \<Rightarrow> system \<Rightarrow> string \<times> system" where
  "plan_analysis P project_desc s =
     reason P (''Plan how you will analyze this project: '' @ take 1000 project_desc) s"

text \<open>The orchestrator never sets \<^verbatim>\<open>additional_context\<close>, so the prompt says \<^verbatim>\<open>None\<close>.\<close>

definition assess_technology_maturity :: "providers \<Rightarrow> string \<Rightarrow> system \<Rightarrow> string \<times> system" where
  "assess_technology_maturity P project_desc s =
     reason P (''You are an expert technology analyst. Analyze the technology maturity for this project: ''
               @ project_desc @ '' Additional context: None'') s"

definition assess_implementation_complexity ::
  "providers \<Rightarrow> string \<Rightarrow> string \<Rightarrow> system \<Rightarrow> string \<times> system" where
  "assess_implementation_complexity P project_desc maturity_assessment s =
     reason P (''Given this project: '' @ project_desc
               @ '' And this technology maturity assessment: '' @ maturity_assessment
               @ '' Analyze the implementation complexity'') s"

definition identify_technical_risks ::
  "providers \<Rightarrow> string \<Rightarrow> string \<Rightarrow> string \<Rightarrow> system \<Rightarrow> string \<times> system" where
  "identify_technical_risks P project_desc maturity complexity s =
     reason P (''Project: '' @ project_desc @ '' Technology Maturity: '' @ maturity
               @ '' Implementation Complexity: '' @ complexity
               @ '' Identify specific technical risks'') s"

definition estimate_development_timeline ::
  "providers \<Rightarrow> string \<Rightarrow> string \<Rightarrow> system \<Rightarrow> string \<times> system" where
  "estimate_development_timeline P project_desc complexity s =
     reason P (''Project: '' @ project_desc @ '' Complexity Assessment: '' @ complexity
               @ '' Estimate a realistic development timeline'') s"

text \<open>
  \<^verbatim>\<open>BaseAgenticAgent.identify_information_gaps\<close>: the list items of the answer, with
  their markers stripped, without the empty ones.
\<close>

definition is_list_item :: "string \<Rightarrow> bool" where
  "is_list_item line \<longleftrightarrow>
     prefix ''-'' (strip line) \<or> prefix bullet (strip line) \<or> prefix ''*'' (strip line)
     \<or> list_ex (\<lambda>c. is_digit c \<and> py_in ''.'' line) (take 3 line)"

definition identify_information_gaps ::
  "providers \<Rightarrow> string \<Rightarrow> string \<Rightarrow> system \<Rightarrow> string list \<times> system" where
  "identify_information_gaps P analysis ctx s =
     (let (response, s1) =
            reason P (''Given this analysis: '' @ analysis @ '' And this context: '' @ ctx
                      @ '' What critical information is missing or unclear?'') s;
          gaps = map (\<lambda>line. lstrip_marks (strip line))
                   (filter is_list_item (split_lines response))
      in (filter (\<lambda>g. g \<noteq> []) gaps, s1))"

definition calculate_confidence :: "string \<Rightarrow> string \<Rightarrow> nat \<Rightarrow> ConfidenceLevel" where
  "calculate_confidence maturity complexity gaps_count =
     (let base = (0.7 :: real);
          adjusted =
            (if py_in ''unclear'' (lower maturity) \<or> py_in ''uncertain'' (lower maturity)
             then base - 0.15 else base);
          reduced =
            (if gaps_count > 3 then adjusted - real gaps_count * 0.05 else adjusted);
          confidence_score = max 0.2 (min 0.95 reduced)
      in if confidence_score > 0.9 then VERY_HIGH
         else if confidence_score > 0.7 then HIGH
         else if confidence_score > 0.5 then MEDIUM
         else if confidence_score > 0.3 then LOW
         else VERY_LOW)"

definition synthesize_analysis ::
  "providers \<Rightarrow> string \<Rightarrow> string \<Rightarrow> string \<Rightarrow> string \<Rightarrow> system \<Rightarrow> string \<times> system" where
  "synthesize_analysis P maturity complexity risks timeline s =
     (let (synthesis, s1) = synthesize_insights P [maturity, complexity, risks, timeline] s
      in reason P (''Based on this technology analysis: '' @ synthesis
                   @ '' Provide: 1. Overall technology feasibility score (0-100)'') s1)"

text \<open>\<^verbatim>\<open>BaseAgenticAgent.reflect_on_work\<close>; the caller discards the result.\<close>

definition reflect_on_work :: "providers \<Rightarrow> string \<Rightarrow> system \<Rightarrow> string \<times> system" where
  "reflect_on_work P work_done s =
     reason P (''You just completed this work: '' @ work_done @ '' Reflect on it'') s"

definition extract_feasibility_score :: "string \<Rightarrow> real" where
  "extract_feasibility_score analysis =
     (let analysis_lower = lower analysis in
      case re_search (kw_digits ''score'' []) analysis_lower of
        Some g \<Rightarrow> float_of_digits g
      | None \<Rightarrow>
          (case re_search (kw_digits ''feasibility'' ''%'') analysis_lower of
             Some g \<Rightarrow> float_of_digits g
           | None \<Rightarrow>
               if py_in ''highly feasible'' analysis_lower \<or> py_in ''excellent'' analysis_lower
               then 85
               else if py_in ''feasible'' analysis_lower \<and> \<not> py_in ''not'' analysis_lower
               then 70
               else if py_in ''challenging'' analysis_lower \<or> py_in ''difficult'' analysis_lower
               then 45
               else if py_in ''not feasible'' analysis_lower \<or> py_in ''infeasible'' analysis_lower
               then 25
               else 60))"

text \<open>\<^verbatim>\<open>TechnologyAnalysisAgent.analyze\<close>.\<close>

definition tech_agent_analyze ::
  "providers \<Rightarrow> AnalysisRequest \<Rightarrow> system \<Rightarrow> DimensionAnalysis \<times> system" where
  "tech_agent_analyze P request s =
     (let desc = ar_project_description request;
          (analysis_plan, s1) = plan_analysis P desc s;
          (tech_assessment, s2) = assess_technology_maturity P desc s1;
          (complexity_assessment, s3) =
            assess_implementation_complexity P desc tech_assessment s2;
          (risk_assessment, s4) =
            identify_technical_risks P desc tech_assessment complexity_assessment s3;
          (timeline_estimate, s5) =
            estimate_development_timeline P desc complexity_assessment s4;
          (info_gaps, s6) =
            identify_information_gaps P (tech_assessment @ [NL] @ complexity_assessment) desc s5;
          conf = calculate_confidence tech_assessment complexity_assessment (length info_gaps);
          (final_analysis, s7) =
            synthesize_analysis P tech_assessment complexity_assessment risk_assessment
              timeline_estimate s6;
          (reflection, s8) = reflect_on_work P final_analysis s7
      in (\<lparr>dimension = ''technology'', score = extract_feasibility_score final_analysis,
           confidence = conf, reasoning = final_analysis\<rparr>, s8))"

section \<open>The orchestrator\<close>

text \<open>An assignment \<^verbatim>\<open>self.current_phase = ph\<close>, recorded in the phase log.\<close>

definition set_phase :: "AnalysisPhase \<Rightarrow> system \<Rightarrow> system" where
  "set_phase ph s = s\<lparr>current_phase := ph, phase_log := phase_log s @ [ph]\<rparr>"

definition extract_queries :: "string \<Rightarrow> string list" where
  "extract_queries strategy_reasoning =
     filter (\<lambda>clean. length clean > 10 \<and> py_in ''?'' clean)
       (map (\<lambda>line. lstrip_marks (strip line))
          (filter (\<lambda>line. py_in ''query'' (lower line) \<or> py_in ''search'' (lower line)
                          \<or> py_in ''?'' line)
             (split_lines strategy_reasoning)))"

definition decide_strategy ::
  "providers \<Rightarrow> ProjectAnalysisRequest \<Rightarrow> system \<Rightarrow> AnalysisStrategy \<times> system" where
  "decide_strategy P request s =
     (let s0 = set_phase PLANNING s;
          (strategy_reasoning, s1) =
            reason P (''You are the orchestrator of a multi-agent research feasibility system. Project: ''
                      @ project_name request @ '' Description: ''
                      @ take 800 (project_description request)
                      @ '' Decide on the analysis strategy'') s0;
          needs_research =
            (py_in ''yes'' (first_line (lower strategy_reasoning))
             \<or> py_in ''research'' (lower strategy_reasoning));
          found = (if needs_research then extract_queries strategy_reasoning else []);
          qs = (if needs_research \<and> found = []
                then [''Market size and trends for '' @ project_name request,
                      ''Technology requirements and maturity for '' @ project_name request,
                      ''Cost estimates for similar projects'']
                else found);
          decision = \<lparr>od_phase = PLANNING, od_action = ''execute_strategy'',
                       od_reasoning = strategy_reasoning,
                       agents_to_spawn =
                         [''research'', ''technology'', ''cost'', ''ethical'', ''market''],
                       od_confidence = 0.8\<rparr>
      in (\<lparr>needs_external_research = needs_research, research_queries = take 3 qs,
           priority_dimensions = [''technology'', ''market'', ''cost'', ''ethical''],
           estimated_time = ''5-10 minutes''\<rparr>,
          s1\<lparr>decisions := decisions s1 @ [decision]\<rparr>))"

definition coordinate_research ::
  "providers \<Rightarrow> string list \<Rightarrow> string \<Rightarrow> system \<Rightarrow> ResearchFindings list \<times> system" where
  "coordinate_research P qs ctx s =
     research_agent_analyze P
       \<lparr>queries = qs, information_type = ''comprehensive'', rr_context = ctx,
        priority = ''high''\<rparr>
       (set_phase INFORMATION_GATHERING s)"

definition simulate_dimension_analysis ::
  "providers \<Rightarrow> string \<Rightarrow> string \<Rightarrow> ResearchFindings list \<Rightarrow> system
   \<Rightarrow> DimensionAnalysis \<times> system" where
  "simulate_dimension_analysis P dim_name project_desc research s =
     (let (analysis, s1) =
            reason P (''Analyze the '' @ dim_name @ '' dimension for this project: ''
                      @ take 1000 project_desc) s;
          sc = (case re_search (kw_digits ''score'' []) (lower analysis) of
                  Some g \<Rightarrow> float_of_digits g | None \<Rightarrow> 65)
      in (\<lparr>dimension = dim_name, score = sc,
           confidence = (if sc > 50 then MEDIUM else LOW), reasoning = analysis\<rparr>, s1))"

definition coordinate_parallel_analysis ::
  "providers \<Rightarrow> string \<Rightarrow> ResearchFindings list \<Rightarrow> system
   \<Rightarrow> DimensionAnalysis list \<times> system" where
  "coordinate_parallel_analysis P project_desc research_findings s =
     (let s0 = set_phase PARALLEL_ANALYSIS s;
          tech_request = \<lparr>ar_project_description = project_desc,
                           ar_research_findings = research_findings,
                           iteration_number = iteration s0\<rparr>;
          (tech_analysis, s1) = tech_agent_analyze P tech_request s0;
          (cost_analysis, s2) =
            simulate_dimension_analysis P ''cost'' project_desc research_findings s1;
          (ethical_analysis, s3) =
            simulate_dimension_analysis P ''ethical'' project_desc research_findings s2;
          (market_analysis, s4) =
            simulate_dimension_analysis P ''market'' project_desc research_findings s3;
          analyses = [tech_analysis, cost_analysis, ethical_analysis, market_analysis]
      in (analyses, s4\<lparr>all_analyses := all_analyses s4 @ analyses\<rparr>))"

text \<open>
  The dictionary \<^verbatim>\<open>confidences\<close> of \<^verbatim>\<open>_validate_analyses\<close>; each literal denotes the
  nearest double.
\<close>

fun confidences :: "ConfidenceLevel \<Rightarrow> real" where
  "confidences VERY_HIGH = fl 0.95"
| "confidences HIGH = fl 0.80"
| "confidences MEDIUM = fl 0.60"
| "confidences LOW = fl 0.40"
| "confidences VERY_LOW = fl 0.20"

text \<open>
  \<^verbatim>\<open>_validate_analyses\<close>. The division by \<^verbatim>\<open>len(analyses)\<close> raises
  \<^verbatim>\<open>ZeroDivisionError\<close> on the empty list, after the phase has been set and before the
  reasoning provider is called.
\<close>

definition validate_analyses ::
  "providers \<Rightarrow> DimensionAnalysis list \<Rightarrow> string \<Rightarrow> system \<Rightarrow> (error + validation) \<times> system" where
  "validate_analyses P analyses project_desc s =
     (let s0 = set_phase VALIDATION s in
      if length analyses = 0 then (Inl ZeroDivisionError, s0)
      else
        (let avg_confidence =
               fdiv (fsum (map (\<lambda>a. confidences (confidence a)) analyses))
                 (real (length analyses));
             summaries =
               join [NL, NL]
                 (map (\<lambda>a. upper (dimension a) @ '': '' @ take 200 (reasoning a)) analyses);
             (check, s1) =
               reason P (''Review these analyses for consistency: '' @ summaries) s0
         in (Inr \<lparr>v_confidence = avg_confidence,
                   is_consistent = (py_in ''consistent'' (lower check)
                                    \<or> py_in ''no contradiction'' (lower check)),
                   consistency_check = check,
                   needs_refinement = (avg_confidence < confidence_threshold s1)\<rparr>, s1)))"

text \<open>\<^verbatim>\<open>_refine_analyses\<close>: one refinement pass; the analyses come back unchanged.\<close>

definition refine_analyses ::
  "DimensionAnalysis list \<Rightarrow> validation \<Rightarrow> string \<Rightarrow> system \<Rightarrow> DimensionAnalysis list \<times> system" where
  "refine_analyses analyses val project_desc s =
     (let s0 = set_phase REFINEMENT s
      in (analyses, s0\<lparr>iteration := iteration s0 + 1\<rparr>))"

text \<open>The dictionary \<^verbatim>\<open>weights\<close> and \<^verbatim>\<open>weights.get(d, 0.25)\<close>.\<close>

definition weights :: "(string \<times> real) list" where
  "weights =
     [(''technology'', fl 0.30), (''cost'', fl 0.20), (''ethical'', fl 0.20),
      (''market'', fl 0.30)]"

definition weight_of :: "string \<Rightarrow> real" where
  "weight_of d = (case map_of weights d of Some w \<Rightarrow> w | None \<Rightarrow> fl 0.25)"

text \<open>
  The overall score: \<^verbatim>\<open>sum(a.score * weights.get(a.dimension, 0.25) for a in analyses)\<close>
  divided by \<^verbatim>\<open>sum(weights.values())\<close>, in the order of the list and of the dictionary.
\<close>

definition weighted_score :: "DimensionAnalysis list \<Rightarrow> real" where
  "weighted_score analyses =
     fdiv (fsum (map (\<lambda>a. fmul (score a) (weight_of (dimension a))) analyses))
       (fsum (map snd weights))"

definition feasibility_band :: "real \<Rightarrow> string" where
  "feasibility_band sc =
     (if sc \<ge> 80 then ''HIGHLY_FEASIBLE''
      else if sc \<ge> 65 then ''FEASIBLE''
      else if sc \<ge> 50 then ''MODERATELY_FEASIBLE''
      else if sc \<ge> 35 then ''CHALLENGING''
      else ''NOT_FEASIBLE'')"

text \<open>\<^verbatim>\<open>_extract_recommendation\<close>; the leading pictograph of each text is left out.\<close>

definition extract_recommendation :: "string \<Rightarrow> string \<Rightarrow> string" where
  "extract_recommendation rsn feasibility =
     (if feasibility \<in> set [''HIGHLY_FEASIBLE'', ''FEASIBLE'']
      then ''PROCEED - Project shows strong feasibility across key dimensions''
      else if feasibility = ''MODERATELY_FEASIBLE''
      then ''PROCEED WITH MODIFICATIONS - Address identified risks before full commitment''
      else if feasibility = ''CHALLENGING''
      then ''RECONSIDER - Significant challenges require substantial changes''
      else ''NOT RECOMMENDED - Critical barriers make success unlikely'')"

text \<open>
  \<^verbatim>\<open>_synthesize_final_decision\<close>. \<open>limitations_iterations\<close> is the value of
  \<^verbatim>\<open>self.iteration\<close> that the source writes into the \<^verbatim>\<open>limitations\<close> text.
\<close>

definition synthesize_final_decision ::
  "providers \<Rightarrow> DimensionAnalysis list \<Rightarrow> validation \<Rightarrow> string \<Rightarrow> string \<Rightarrow> system
   \<Rightarrow> FinalDecision \<times> system" where
  "synthesize_final_decision P analyses val project_desc proj_name s =
     (let s0 = set_phase SYNTHESIS s;
          total = weighted_score analyses;
          feasibility = feasibility_band total;
          analysis_summaries =
            join [NL, NL]
              (map (\<lambda>a. upper (dimension a) @ [NL] @ take 300 (reasoning a)) analyses);
          (rsn, s1) =
            reason P (''As the orchestrator, synthesize these analyses into a final decision: ''
                      @ analysis_summaries @ '' Feasibility: '' @ feasibility) s0
      in (\<lparr>overall_feasibility = feasibility, overall_score = total,
           fd_confidence = (if v_confidence val > 0.75 then HIGH else MEDIUM),
           decision_reasoning = rsn,
           recommendation = extract_recommendation rsn feasibility,
           dimension_scores = foldl (\<lambda>m a. m(dimension a \<mapsto> score a)) Map.empty analyses,
           analysis_quality = (if is_consistent val then ''high'' else ''moderate''),
           limitations_iterations = iteration s1\<rparr>, s1))"

text \<open>
  \<^verbatim>\<open>OrchestratorAgent.analyze_project\<close>. An exception raised by the validation ends
  the run with the state reached so far.
\<close>

definition analyze_project ::
  "providers \<Rightarrow> ProjectAnalysisRequest \<Rightarrow> system \<Rightarrow> (error + FinalDecision) \<times> system" where
  "analyze_project P request s =
     (let desc = project_description request;
          (strategy, s1) = decide_strategy P request s;
          (research_findings, s2) =
            (if needs_external_research strategy
             then coordinate_research P (research_queries strategy) desc s1
             else ([], s1));
          (analyses, s3) = coordinate_parallel_analysis P desc research_findings s2;
          (checked, s4) = validate_analyses P analyses desc s3
      in case checked of
           Inl e \<Rightarrow> (Inl e, s4)
         | Inr val \<Rightarrow>
             (let (refined, s5) =
                    (if v_confidence val < confidence_threshold s4
                        \<and> iteration s4 < max_iterations s4
                     then refine_analyses analyses val desc s4
                     else (analyses, s4));
                  (final_decision, s6) =
                    synthesize_final_decision P refined val desc (project_name request) s5
              in (Inr final_decision, s6)))"


section \<open>Example inputs\<close>

text \<open>
  Concrete inputs on which the theorems below are instantiated: a reasoning provider that
  answers every prompt with the same short text, a retrieval provider that returns one
  record per call, and analyses with given dimension, score and confidence level.
\<close>

definition ex_result :: search_result where
  "ex_result = \<lparr>title = ''T'', url = ''u'', snippet = ''s'', source = ''A''\<rparr>"

definition ex_providers :: providers where
  "ex_providers = \<lparr>llm = (\<lambda>k prompt. ''ok''), web_search = (\<lambda>k query n. [ex_result])\<rparr>"

definition ex_empty_providers :: providers where
  "ex_empty_providers = \<lparr>llm = (\<lambda>k prompt. ''ok''), web_search = (\<lambda>k query n. [])\<rparr>"

definition ex_analysis :: "string \<Rightarrow> real \<Rightarrow> ConfidenceLevel \<Rightarrow> DimensionAnalysis" where
  "ex_analysis d sc c = \<lparr>dimension = d, score = sc, confidence = c, reasoning = ''r''\<rparr>"

definition ex_validation :: validation where
  "ex_validation =
     \<lparr>v_confidence = 0.6, is_consistent = True, consistency_check = ''consistent'',
      needs_refinement = True\<rparr>"

definition ex_request :: "string \<Rightarrow> ProjectAnalysisRequest" where
  "ex_request desc =
     \<lparr>project_description = desc, project_name = ''P'', requester_address = ''user'',
      analysis_depth = ''comprehensive''\<rparr>"

section \<open>Floating point: values of the literals\<close>

lemmas fl_eval = fl_def round_even_def Let_def pow2_def fadd_def fmul_def fdiv_def fsum_def

lemma fl_literals:
  "fl 0.30 = 5404319552844595 / 2 ^ 54"
  "fl 0.20 = 3602879701896397 / 2 ^ 54"
  "fl 0.25 = 1 / 4"
  "fl 0.40 = 3602879701896397 / 2 ^ 53"
  "fl 0.60 = 5404319552844595 / 2 ^ 53"
  "fl 0.80 = 3602879701896397 / 2 ^ 52"
  "fl 0.95 = 4278419646001971 / 2 ^ 52"
  by (simp_all add: fl_eval)

lemma weights_total: "fsum (map snd weights) = 1"
  by (simp add: weights_def fl_eval)

lemma weight_of_canonical:
  "weight_of ''technology'' = fl 0.30" "weight_of ''cost'' = fl 0.20"
  "weight_of ''ethical'' = fl 0.20" "weight_of ''market'' = fl 0.30"
  by (simp_all add: weight_of_def weights_def)

section \<open>Synthesis: weighted score and feasibility band\<close>

lemma feasibility_band_cases:
  "feasibility_band sc = ''HIGHLY_FEASIBLE'' \<longleftrightarrow> sc \<ge> 80"
  "feasibility_band sc = ''FEASIBLE'' \<longleftrightarrow> 65 \<le> sc \<and> sc < 80"
  "feasibility_band sc = ''MODERATELY_FEASIBLE'' \<longleftrightarrow> 50 \<le> sc \<and> sc < 65"
  "feasibility_band sc = ''CHALLENGING'' \<longleftrightarrow> 35 \<le> sc \<and> sc < 50"
  "feasibility_band sc = ''NOT_FEASIBLE'' \<longleftrightarrow> sc < 35"
  by (auto simp: feasibility_band_def)

lemma synth_fields:
  "overall_score (fst (synthesize_final_decision P analyses val d n s))
     = weighted_score analyses"
  "overall_feasibility (fst (synthesize_final_decision P analyses val d n s))
     = feasibility_band (weighted_score analyses)"
  "fd_confidence (fst (synthesize_final_decision P analyses val d n s))
     = (if v_confidence val > 0.75 then HIGH else MEDIUM)"
  by (simp_all add: synthesize_final_decision_def Let_def split_beta)

lemma weighted4:
  assumes "dimension t = ''technology''" "dimension c = ''cost''"
    "dimension e = ''ethical''" "dimension m = ''market''"
  shows "weighted_score [t, c, e, m]
    = fdiv (fadd (fadd (fadd (fadd 0 (fmul (score t) (fl 0.30))) (fmul (score c) (fl 0.20)))
                    (fmul (score e) (fl 0.20))) (fmul (score m) (fl 0.30))) 1"
  using assms unfolding weighted_score_def weights_total
  by (simp add: weight_of_canonical fsum_def)





text \<open>
  Claim C3. The band of the synthesized decision is a function of its overall score:
  HIGHLY_FEASIBLE exactly from 80, FEASIBLE exactly in [65, 80), MODERATELY_FEASIBLE
  exactly in [50, 65), CHALLENGING exactly in [35, 50) and NOT_FEASIBLE exactly below 35.
  The boundary scores 80, 65, 50 and 35 belong to the upper band, and 34.9 is NOT_FEASIBLE.
\<close>

theorem feasibility_bands:
  "overall_feasibility (fst (synthesize_final_decision P analyses val desc name s))
     = feasibility_band
         (overall_score (fst (synthesize_final_decision P analyses val desc name s)))
   \<and> (feasibility_band sc = ''HIGHLY_FEASIBLE'' \<longleftrightarrow> sc \<ge> 80)
   \<and> (feasibility_band sc = ''FEASIBLE'' \<longleftrightarrow> 65 \<le> sc \<and> sc < 80)
   \<and> (feasibility_band sc = ''MODERATELY_FEASIBLE'' \<longleftrightarrow> 50 \<le> sc \<and> sc < 65)
   \<and> (feasibility_band sc = ''CHALLENGING'' \<longleftrightarrow> 35 \<le> sc \<and> sc < 50)
   \<and> (feasibility_band sc = ''NOT_FEASIBLE'' \<longleftrightarrow> sc < 35)
   \<and> feasibility_band 80 = ''HIGHLY_FEASIBLE''
   \<and> feasibility_band 65 = ''FEASIBLE''
   \<and> feasibility_band 50 = ''MODERATELY_FEASIBLE''
   \<and> feasibility_band 35 = ''CHALLENGING''
   \<and> feasibility_band 34.9 = ''NOT_FEASIBLE''"
  by (simp add: synth_fields feasibility_band_cases)

theorem feasibility_bands_witness:
  "overall_feasibility (fst (synthesize_final_decision ex_providers
      [ex_analysis ''technology'' 80 MEDIUM, ex_analysis ''cost'' 80 MEDIUM,
       ex_analysis ''ethical'' 80 MEDIUM, ex_analysis ''market'' 80 MEDIUM]
      ex_validation ''d'' ''P'' init_system)) = ''HIGHLY_FEASIBLE''"
  using feasibility_bands [of ex_providers
      "[ex_analysis ''technology'' 80 MEDIUM, ex_analysis ''cost'' 80 MEDIUM,
       ex_analysis ''ethical'' 80 MEDIUM, ex_analysis ''market'' 80 MEDIUM]"
      ex_validation "''d''" "''P''" init_system 80]
  by (simp add: synth_fields weighted4 ex_analysis_def) (simp add: fl_eval)

section \<open>Validation\<close>

lemma validate_nonempty:
  assumes "analyses \<noteq> []"
  shows "\<exists>v. fst (validate_analyses P analyses d s) = Inr v
     \<and> v_confidence v
         = fdiv (fsum (map (\<lambda>a. confidences (confidence a)) analyses))
             (real (length analyses))
     \<and> needs_refinement v = (v_confidence v < confidence_threshold s)"
  using assms
  by (simp add: validate_analyses_def Let_def split_beta reason_def set_phase_def)

lemma validate_empty: "fst (validate_analyses P [] d s) = Inl ZeroDivisionError"
  by (simp add: validate_analyses_def Let_def)




text \<open>
  Claim C6, as stated, fails: on the empty list the validation raises Python's
  ZeroDivisionError, not a ConfigurationError.
\<close>

theorem validation_empty_not_configuration_error:
  "fst (validate_analyses ex_providers [] ''d'' init_system) = Inl ZeroDivisionError
   \<and> fst (validate_analyses ex_providers [] ''d'' init_system) \<noteq> Inl ConfigurationError"
  by (simp add: validate_empty)

text \<open>
  Claim C6, amended. On the empty list the validation fails with ZeroDivisionError and
  returns no validation result; and it fails exactly when the list is empty.
\<close>

theorem validation_fails_iff_empty:
  "fst (validate_analyses P [] desc s) = Inl ZeroDivisionError
   \<and> (\<forall>v. fst (validate_analyses P [] desc s) \<noteq> Inr v)
   \<and> ((\<exists>e. fst (validate_analyses P analyses desc s) = Inl e) \<longleftrightarrow> analyses = [])"
proof -
  have "(\<exists>e. fst (validate_analyses P analyses desc s) = Inl e) \<longleftrightarrow> analyses = []"
  proof (cases "analyses = []")
    case True
    then show ?thesis by (simp add: validate_empty)
  next
    case False
    from validate_nonempty [OF False, of P desc s] show ?thesis using False by auto
  qed
  then show ?thesis by (simp add: validate_empty)
qed

theorem validation_fails_iff_empty_witness:
  "fst (validate_analyses ex_providers [] ''d'' init_system) = Inl ZeroDivisionError
   \<and> \<not> (\<exists>e. fst (validate_analyses ex_providers [ex_analysis ''cost'' 60 LOW] ''d''
                   init_system) = Inl e)"
  using validation_fails_iff_empty
    [of ex_providers "''d''" init_system "[ex_analysis ''cost'' 60 LOW]"]
  by simp

section \<open>Research: confidence and relevance of a finding\<close>

lemma research_query_fields:
  "findings (fst (research_query P q it ctx s)) = web_search P (length (search_log s)) q 5"
  "sources (fst (research_query P q it ctx s))
     = map source (findings (fst (research_query P q it ctx s)))"
  "rf_confidence (fst (research_query P q it ctx s))
     = assess_research_confidence (findings (fst (research_query P q it ctx s)))
         (agent_reasoning (fst (research_query P q it ctx s)))"
  "findings (fst (research_query P q it ctx s)) = []
     \<Longrightarrow> relevance_score (fst (research_query P q it ctx s)) = 0"
  by (simp_all add: research_query_def Let_def split_beta search_def
       decide_search_strategy_def reason_def assess_relevance_def)

lemma arc_nonempty:
  assumes "results \<noteq> []"
  shows "assess_research_confidence results analysis
     = min ((min (real (card (set (map source results))) * 0.15) 0.35
             + (if py_in ''unclear'' (lower analysis) \<or> py_in ''missing'' (lower analysis)
                then 0.4
                else if py_in ''consistent'' (lower analysis) \<or> py_in ''clear'' (lower analysis)
                then 0.75
                else 0.6)) / 2 + 0.2) 0.95"
  using assms by (simp add: assess_research_confidence_def Let_def length_remdups_card_conv)

lemma arc_bounds:
  "0.1 \<le> assess_research_confidence results analysis
   \<and> assess_research_confidence results analysis \<le> 0.95"
proof (cases "results = []")
  case True
  then show ?thesis by (simp add: assess_research_confidence_def)
next
  case False
  have "0 \<le> min (real (card (set (map source results))) * 0.15) 0.35" by simp
  then show ?thesis unfolding arc_nonempty [OF False] by (auto simp: min_def)
qed

text \<open>
  Claim C9, as stated, fails: with one source and an analysis text that says "unclear"
  the confidence is 0.475, while the average of the two components, clamped to
  [0.1, 0.95], is 0.275.
\<close>

theorem research_confidence_counterexample:
  "assess_research_confidence [ex_result] ''unclear'' = 0.475
   \<and> assess_research_confidence [ex_result] ''unclear''
       \<noteq> max 0.1 (min 0.95 ((min (1 * 0.15) 0.35 + 0.4) / 2))"
  by (simp add: assess_research_confidence_def Let_def ex_result_def lower_def lower_char_def)

text \<open>
  Claim C9, amended. The finding researched for a query (the cache-miss path) with a
  non-empty result list has confidence min((d + a) / 2 + 0.2, 0.95), where
  d = min(number of distinct sources * 0.15, 0.35) and a is 0.4, 0.75 or 0.6 as read from
  the analysis text; the value lies in [0.1, 0.95]. With an empty result list the relevance
  is 0 and the confidence is 0.1.
\<close>

theorem research_confidence_formula:
  "(findings (fst (research_query P q it ctx s)) \<noteq> [] \<longrightarrow>
      rf_confidence (fst (research_query P q it ctx s))
        = min ((min (real (card (set (sources (fst (research_query P q it ctx s))))) * 0.15) 0.35
                + (if py_in ''unclear'' (lower (agent_reasoning (fst (research_query P q it ctx s))))
                      \<or> py_in ''missing'' (lower (agent_reasoning (fst (research_query P q it ctx s))))
                   then 0.4
                   else if py_in ''consistent'' (lower (agent_reasoning (fst (research_query P q it ctx s))))
                      \<or> py_in ''clear'' (lower (agent_reasoning (fst (research_query P q it ctx s))))
                   then 0.75
                   else 0.6)) / 2 + 0.2) 0.95)
   \<and> (findings (fst (research_query P q it ctx s)) = [] \<longrightarrow>
        relevance_score (fst (research_query P q it ctx s)) = 0
        \<and> rf_confidence (fst (research_query P q it ctx s)) = 0.1)
   \<and> 0.1 \<le> rf_confidence (fst (research_query P q it ctx s))
   \<and> rf_confidence (fst (research_query P q it ctx s)) \<le> 0.95"
proof -
  let ?f = "fst (research_query P q it ctx s)"
  have a: "findings ?f \<noteq> [] \<Longrightarrow> rf_confidence ?f
      = min ((min (real (card (set (sources ?f))) * 0.15) 0.35
                + (if py_in ''unclear'' (lower (agent_reasoning ?f))
                      \<or> py_in ''missing'' (lower (agent_reasoning ?f))
                   then 0.4
                   else if py_in ''consistent'' (lower (agent_reasoning ?f))
                      \<or> py_in ''clear'' (lower (agent_reasoning ?f))
                   then 0.75
                   else 0.6)) / 2 + 0.2) 0.95"
    using arc_nonempty [of "findings ?f" "agent_reasoning ?f"]
    by (simp add: research_query_fields(2,3))
  have b: "findings ?f = [] \<Longrightarrow> rf_confidence ?f = 0.1"
    by (simp add: research_query_fields(3) assess_research_confidence_def)
  have c: "0.1 \<le> rf_confidence ?f \<and> rf_confidence ?f \<le> 0.95"
    by (simp only: research_query_fields(3) arc_bounds)
  from a b c research_query_fields(4) [of P q it ctx s] show ?thesis by blast
qed

theorem research_confidence_formula_witness:
  "rf_confidence (fst (research_query ex_providers ''q'' ''comprehensive'' ''c'' init_system))
     = 0.575
   \<and> relevance_score
       (fst (research_query ex_empty_providers ''q'' ''comprehensive'' ''c'' init_system)) = 0
   \<and> rf_confidence
       (fst (research_query ex_empty_providers ''q'' ''comprehensive'' ''c'' init_system)) = 0.1"
proof -
  have f: "findings (fst (research_query ex_providers ''q'' ''comprehensive'' ''c'' init_system))
      = [ex_result]"
    by (simp add: research_query_fields(1) ex_providers_def)
  have r: "agent_reasoning
      (fst (research_query ex_providers ''q'' ''comprehensive'' ''c'' init_system)) = ''ok''"
    by (simp add: research_query_def Let_def split_beta search_def decide_search_strategy_def
        reason_def analyze_search_results_def ex_providers_def)
  have e: "findings
      (fst (research_query ex_empty_providers ''q'' ''comprehensive'' ''c'' init_system)) = []"
    by (simp add: research_query_fields(1) ex_empty_providers_def)
  have "rf_confidence (fst (research_query ex_providers ''q'' ''comprehensive'' ''c'' init_system))
     = 0.575"
    using research_confidence_formula [of ex_providers "''q''" "''comprehensive''" "''c''" init_system]
    by (simp add: f r research_query_fields(2) ex_result_def lower_def lower_char_def)
  moreover have "relevance_score
       (fst (research_query ex_empty_providers ''q'' ''comprehensive'' ''c'' init_system)) = 0
   \<and> rf_confidence
       (fst (research_query ex_empty_providers ''q'' ''comprehensive'' ''c'' init_system)) = 0.1"
    using research_confidence_formula
      [of ex_empty_providers "''q''" "''comprehensive''" "''c''" init_system] e
    by simp
  ultimately show ?thesis by simp
qed

section \<open>Research: the findings cache\<close>

lemma research_query_snd:
  "snd (research_query P q it ctx s)
     = s\<lparr>llm_calls := llm_calls s + (if web_search P (length (search_log s)) q 5 = [] then 2 else 3),
         search_log := search_log s @ [q]\<rparr>"
  by (simp add: research_query_def Let_def split_beta search_def decide_search_strategy_def
      analyze_search_results_def assess_relevance_def reason_def)

lemma research_loop_Cons_hit:
  "findings_cache s q = Some c \<Longrightarrow>
   research_loop P req (q # qs) acc s = research_loop P req qs (acc @ [c]) s"
  by simp

lemma research_loop_Cons_miss:
  "findings_cache s q = None \<Longrightarrow>
   research_loop P req (q # qs) acc s
     = research_loop P req qs
         (acc @ [fst (research_query P q (information_type req) (rr_context req) s)])
         ((snd (research_query P q (information_type req) (rr_context req) s))
            \<lparr>findings_cache := (findings_cache s)
               (q \<mapsto> fst (research_query P q (information_type req) (rr_context req) s))\<rparr>)"
  by (simp add: split_beta research_query_snd)

lemma research_loop_cache_mono:
  "findings_cache s q = Some c \<Longrightarrow>
   findings_cache (snd (research_loop P req qs acc s)) q = Some c"
proof (induction qs arbitrary: acc s)
  case Nil
  then show ?case by simp
next
  case (Cons x xs)
  show ?case
  proof (cases "findings_cache s x")
    case None
    with Cons.prems have "x \<noteq> q" by auto
    then show ?thesis
      unfolding research_loop_Cons_miss [OF None]
      by (intro Cons.IH) (simp add: Cons.prems)
  next
    case (Some d)
    show ?thesis
      unfolding research_loop_Cons_hit [OF Some] by (rule Cons.IH [OF Cons.prems])
  qed
qed

lemma research_loop_results:
  "fst (research_loop P req qs acc s)
     = acc @ map (\<lambda>q. the (findings_cache (snd (research_loop P req qs acc s)) q)) qs"
proof (induction qs arbitrary: acc s)
  case Nil
  then show ?case by simp
next
  case (Cons x xs)
  show ?case
  proof (cases "findings_cache s x")
    case None
    let ?f = "fst (research_query P x (information_type req) (rr_context req) s)"
    let ?s2 = "(snd (research_query P x (information_type req) (rr_context req) s))
            \<lparr>findings_cache := (findings_cache s)(x \<mapsto> ?f)\<rparr>"
    have "findings_cache ?s2 x = Some ?f" by simp
    then have "findings_cache (snd (research_loop P req xs (acc @ [?f]) ?s2)) x = Some ?f"
      by (rule research_loop_cache_mono)
    then show ?thesis
      unfolding research_loop_Cons_miss [OF None]
      by (subst Cons.IH) simp
  next
    case (Some d)
    have "findings_cache (snd (research_loop P req xs (acc @ [d]) s)) x = Some d"
      using Some by (rule research_loop_cache_mono)
    then show ?thesis
      unfolding research_loop_Cons_hit [OF Some]
      by (subst Cons.IH) simp
  qed
qed

lemma research_loop_search_log:
  "\<exists>new. search_log (snd (research_loop P req qs acc s)) = search_log s @ new
     \<and> distinct new \<and> set new = {q \<in> set qs. findings_cache s q = None}"
proof (induction qs arbitrary: acc s)
  case Nil
  then show ?case by simp
next
  case (Cons x xs)
  show ?case
  proof (cases "findings_cache s x")
    case None
    let ?f = "fst (research_query P x (information_type req) (rr_context req) s)"
    let ?s2 = "(snd (research_query P x (information_type req) (rr_context req) s))
            \<lparr>findings_cache := (findings_cache s)(x \<mapsto> ?f)\<rparr>"
    obtain new where new: "search_log (snd (research_loop P req xs (acc @ [?f]) ?s2))
        = search_log ?s2 @ new" "distinct new"
        "set new = {q \<in> set xs. findings_cache ?s2 q = None}"
      using Cons.IH [of "acc @ [?f]" ?s2] by blast
    have l: "search_log ?s2 = search_log s @ [x]"
      by (simp add: research_query_snd)
    have "search_log (snd (research_loop P req (x # xs) acc s)) = search_log s @ (x # new)"
      unfolding research_loop_Cons_miss [OF None] using new(1) l by simp
    moreover have "distinct (x # new)"
      using new(2,3) by simp
    moreover have "set (x # new) = {q \<in> set (x # xs). findings_cache s q = None}"
      using new(3) None by auto
    ultimately show ?thesis by blast
  next
    case (Some d)
    obtain new where new: "search_log (snd (research_loop P req xs (acc @ [d]) s))
        = search_log s @ new" "distinct new"
        "set new = {q \<in> set xs. findings_cache s q = None}"
      using Cons.IH [of "acc @ [d]" s] by blast
    have "set new = {q \<in> set (x # xs). findings_cache s q = None}"
      using new(3) Some by auto
    with new(1,2) show ?thesis
      unfolding research_loop_Cons_hit [OF Some] by blast
  qed
qed

lemma research_loop_all_cached:
  "\<forall>q \<in> set qs. findings_cache s q \<noteq> None \<Longrightarrow>
   snd (research_loop P req qs acc s) = s"
proof (induction qs arbitrary: acc)
  case Nil
  then show ?case by simp
next
  case (Cons x xs)
  then obtain d where d: "findings_cache s x = Some d" by auto
  show ?case unfolding research_loop_Cons_hit [OF d] using Cons by simp
qed

lemma distinct_count_list_one: "distinct xs \<Longrightarrow> x \<in> set xs \<Longrightarrow> count_list xs x = 1"
  by (induction xs) auto

text \<open>
  Claim C8. When a query that is not yet cached is gathered twice, the research agent
  researches it once: the request [q, q] returns the same finding twice and issues one
  retrieval call; a second call of the agent for q returns the finding of the first call
  and leaves the state unchanged (no provider is called, nothing is scored again). In
  general, however often q occurs in a request, exactly one retrieval call is issued for
  it, and every occurrence yields the finding stored in the cache under q.
\<close>

theorem research_cache_hit:
  assumes "findings_cache s q = None"
  shows "research_agent_analyze P (req\<lparr>queries := [q, q]\<rparr>) s
           = ([fst (research_query P q (information_type req) (rr_context req) s),
               fst (research_query P q (information_type req) (rr_context req) s)],
              (snd (research_query P q (information_type req) (rr_context req) s))
                \<lparr>findings_cache := (findings_cache s)
                   (q \<mapsto> fst (research_query P q (information_type req) (rr_context req) s))\<rparr>)
         \<and> search_log (snd (research_agent_analyze P (req\<lparr>queries := [q, q]\<rparr>) s))
             = search_log s @ [q]
         \<and> research_agent_analyze P (req'\<lparr>queries := [q]\<rparr>)
             (snd (research_agent_analyze P (req\<lparr>queries := [q]\<rparr>) s))
           = (fst (research_agent_analyze P (req\<lparr>queries := [q]\<rparr>) s),
              snd (research_agent_analyze P (req\<lparr>queries := [q]\<rparr>) s))
         \<and> (q \<in> set (queries req) \<longrightarrow>
              count_list (drop (length (search_log s))
                 (search_log (snd (research_agent_analyze P req s)))) q = 1
              \<and> (\<forall>i < length (queries req). queries req ! i = q \<longrightarrow>
                    fst (research_agent_analyze P req s) ! i
                      = the (findings_cache (snd (research_agent_analyze P req s)) q)))"
proof -
  let ?f = "fst (research_query P q (information_type req) (rr_context req) s)"
  let ?s1 = "snd (research_query P q (information_type req) (rr_context req) s)"
  let ?s2 = "?s1\<lparr>findings_cache := (findings_cache s)(q \<mapsto> ?f)\<rparr>"
  have a: "research_agent_analyze P (req\<lparr>queries := [q, q]\<rparr>) s = ([?f, ?f], ?s2)"
    using assms by (simp add: research_agent_analyze_def split_beta research_query_snd)
  have b: "search_log ?s2 = search_log s @ [q]"
    by (simp add: research_query_snd)
  have c1: "research_agent_analyze P (req\<lparr>queries := [q]\<rparr>) s = ([?f], ?s2)"
    using assms by (simp add: research_agent_analyze_def split_beta research_query_snd)
  have c2: "research_agent_analyze P (req'\<lparr>queries := [q]\<rparr>) ?s2 = ([?f], ?s2)"
    by (simp add: research_agent_analyze_def)
  have d: "count_list (drop (length (search_log s))
                 (search_log (snd (research_agent_analyze P req s)))) q = 1"
    if "q \<in> set (queries req)"
  proof -
    obtain new where new: "search_log (snd (research_loop P req (queries req) [] s))
        = search_log s @ new" "distinct new"
        "set new = {x \<in> set (queries req). findings_cache s x = None}"
      using research_loop_search_log by blast
    have "q \<in> set new" using new(3) that assms by simp
    then show ?thesis
      using new(1,2) by (simp add: research_agent_analyze_def distinct_count_list_one)
  qed
  have e: "fst (research_agent_analyze P req s) ! i
                      = the (findings_cache (snd (research_agent_analyze P req s)) q)"
    if "i < length (queries req)" "queries req ! i = q" for i
    using that unfolding research_agent_analyze_def
    by (subst research_loop_results) simp
  show ?thesis
    using a b c1 c2 d e by simp
qed

theorem research_cache_hit_witness:
  "fst (research_agent_analyze ex_providers
          \<lparr>queries = [''q'', ''q''], information_type = ''comprehensive'', rr_context = ''c'',
           priority = ''high''\<rparr> init_system)
     = [fst (research_query ex_providers ''q'' ''comprehensive'' ''c'' init_system),
        fst (research_query ex_providers ''q'' ''comprehensive'' ''c'' init_system)]
   \<and> search_log (snd (research_agent_analyze ex_providers
          \<lparr>queries = [''q'', ''q''], information_type = ''comprehensive'', rr_context = ''c'',
           priority = ''high''\<rparr> init_system)) = [''q'']"
proof -
  have n: "findings_cache init_system ''q'' = None"
    by (simp add: init_system_def)
  have l: "search_log init_system = []"
    by (simp add: init_system_def)
  show ?thesis
    using research_cache_hit [OF n, of ex_providers
      "\<lparr>queries = [''q'', ''q''], information_type = ''comprehensive'', rr_context = ''c'',
           priority = ''high''\<rparr>"] l
    by (simp add: research_query_snd)
qed

section \<open>The run of the orchestrator: its stages\<close>

lemma research_loop_frame:
  "\<exists>n lg ch. snd (research_loop P req qs acc s)
      = s\<lparr>llm_calls := n, search_log := lg, findings_cache := ch\<rparr> \<and> llm_calls s \<le> n"
proof (induction qs arbitrary: acc s)
  case Nil
  have "s = s\<lparr>llm_calls := llm_calls s, search_log := search_log s,
      findings_cache := findings_cache s\<rparr>" by simp
  then show ?case by (metis research_loop.simps(1) snd_conv order_refl)
next
  case (Cons x xs)
  show ?case
  proof (cases "findings_cache s x")
    case None
    let ?f = "fst (research_query P x (information_type req) (rr_context req) s)"
    let ?s2 = "(snd (research_query P x (information_type req) (rr_context req) s))
            \<lparr>findings_cache := (findings_cache s)(x \<mapsto> ?f)\<rparr>"
    obtain n lg ch where h: "snd (research_loop P req xs (acc @ [?f]) ?s2)
        = ?s2\<lparr>llm_calls := n, search_log := lg, findings_cache := ch\<rparr>" "llm_calls ?s2 \<le> n"
      using Cons.IH [of "acc @ [?f]" ?s2] by blast
    have "snd (research_loop P req (x # xs) acc s)
        = s\<lparr>llm_calls := n, search_log := lg, findings_cache := ch\<rparr>"
      unfolding research_loop_Cons_miss [OF None] h(1) by (simp add: research_query_snd)
    moreover have "llm_calls s \<le> n"
      using h(2) by (simp add: research_query_snd split: if_splits)
    ultimately show ?thesis by blast
  next
    case (Some d)
    show ?thesis unfolding research_loop_Cons_hit [OF Some] by (rule Cons.IH)
  qed
qed

lemma research_agent_analyze_fields:
  "phase_log (snd (research_agent_analyze P req s)) = phase_log s"
  "current_phase (snd (research_agent_analyze P req s)) = current_phase s"
  "iteration (snd (research_agent_analyze P req s)) = iteration s"
  "max_iterations (snd (research_agent_analyze P req s)) = max_iterations s"
  "confidence_threshold (snd (research_agent_analyze P req s)) = confidence_threshold s"
  "decisions (snd (research_agent_analyze P req s)) = decisions s"
  "llm_calls s \<le> llm_calls (snd (research_agent_analyze P req s))"
  "all_analyses (snd (research_agent_analyze P req s)) = all_analyses s"
proof -
  obtain n lg ch where h: "snd (research_loop P req (queries req) [] s)
      = s\<lparr>llm_calls := n, search_log := lg, findings_cache := ch\<rparr>" "llm_calls s \<le> n"
    using research_loop_frame by blast
  show "phase_log (snd (research_agent_analyze P req s)) = phase_log s"
    "current_phase (snd (research_agent_analyze P req s)) = current_phase s"
    "iteration (snd (research_agent_analyze P req s)) = iteration s"
    "max_iterations (snd (research_agent_analyze P req s)) = max_iterations s"
    "confidence_threshold (snd (research_agent_analyze P req s)) = confidence_threshold s"
    "decisions (snd (research_agent_analyze P req s)) = decisions s"
    "llm_calls s \<le> llm_calls (snd (research_agent_analyze P req s))"
    "all_analyses (snd (research_agent_analyze P req s)) = all_analyses s"
    using h by (simp_all add: research_agent_analyze_def)
qed

lemma decide_strategy_fields:
  "phase_log (snd (decide_strategy P r s)) = phase_log s @ [PLANNING]"
  "iteration (snd (decide_strategy P r s)) = iteration s"
  "max_iterations (snd (decide_strategy P r s)) = max_iterations s"
  "confidence_threshold (snd (decide_strategy P r s)) = confidence_threshold s"
  "llm_calls (snd (decide_strategy P r s)) = llm_calls s + 1"
  "length (decisions (snd (decide_strategy P r s))) = length (decisions s) + 1"
  "od_phase (last (decisions (snd (decide_strategy P r s)))) = PLANNING"
  "all_analyses (snd (decide_strategy P r s)) = all_analyses s"
  by (simp_all add: decide_strategy_def Let_def split_beta reason_def set_phase_def)

lemma coordinate_research_fields:
  "phase_log (snd (coordinate_research P qs c s)) = phase_log s @ [INFORMATION_GATHERING]"
  "iteration (snd (coordinate_research P qs c s)) = iteration s"
  "max_iterations (snd (coordinate_research P qs c s)) = max_iterations s"
  "confidence_threshold (snd (coordinate_research P qs c s)) = confidence_threshold s"
  "decisions (snd (coordinate_research P qs c s)) = decisions s"
  "llm_calls s \<le> llm_calls (snd (coordinate_research P qs c s))"
  "all_analyses (snd (coordinate_research P qs c s)) = all_analyses s"
  using research_agent_analyze_fields(7) [of "set_phase INFORMATION_GATHERING s"]
  by (simp_all add: coordinate_research_def research_agent_analyze_fields set_phase_def)

lemma tech_agent_analyze_snd:
  "snd (tech_agent_analyze P r s) = s\<lparr>llm_calls := llm_calls s + 9\<rparr>"
  by (simp add: tech_agent_analyze_def Let_def split_beta plan_analysis_def
      assess_technology_maturity_def assess_implementation_complexity_def
      identify_technical_risks_def estimate_development_timeline_def
      identify_information_gaps_def synthesize_analysis_def synthesize_insights_def
      reflect_on_work_def reason_def)

lemma calculate_confidence_le_medium:
  "calculate_confidence m c g \<in> {VERY_LOW, LOW, MEDIUM}"
  by (auto simp: calculate_confidence_def Let_def)

lemma tech_agent_analyze_confidence:
  "confidence (fst (tech_agent_analyze P r s)) \<in> {VERY_LOW, LOW, MEDIUM}"
  by (simp add: tech_agent_analyze_def Let_def split_beta calculate_confidence_le_medium
      del: insert_iff)

lemma tech_agent_analyze_dimension:
  "dimension (fst (tech_agent_analyze P r s)) = ''technology''"
  by (simp add: tech_agent_analyze_def Let_def split_beta)

lemma simulate_snd:
  "snd (simulate_dimension_analysis P d desc rf s) = s\<lparr>llm_calls := llm_calls s + 1\<rparr>"
  by (simp add: simulate_dimension_analysis_def Let_def split_beta reason_def)

lemma simulate_confidence:
  "confidence (fst (simulate_dimension_analysis P d desc rf s)) \<in> {LOW, MEDIUM}"
  by (simp add: simulate_dimension_analysis_def Let_def split_beta)

lemma simulate_dimension: "dimension (fst (simulate_dimension_analysis P d desc rf s)) = d"
  by (simp add: simulate_dimension_analysis_def Let_def split_beta)

lemma coordinate_parallel_analysis_fst:
  "\<exists>t c e m. fst (coordinate_parallel_analysis P d rf s) = [t, c, e, m]
     \<and> dimension t = ''technology'' \<and> dimension c = ''cost''
     \<and> dimension e = ''ethical'' \<and> dimension m = ''market''
     \<and> confidence t \<in> {VERY_LOW, LOW, MEDIUM} \<and> confidence c \<in> {LOW, MEDIUM}
     \<and> confidence e \<in> {LOW, MEDIUM} \<and> confidence m \<in> {LOW, MEDIUM}"
  by (simp add: coordinate_parallel_analysis_def Let_def split_beta
      tech_agent_analyze_confidence tech_agent_analyze_dimension simulate_confidence
      simulate_dimension del: insert_iff)

lemma coordinate_parallel_analysis_fields:
  "phase_log (snd (coordinate_parallel_analysis P d rf s)) = phase_log s @ [PARALLEL_ANALYSIS]"
  "iteration (snd (coordinate_parallel_analysis P d rf s)) = iteration s"
  "max_iterations (snd (coordinate_parallel_analysis P d rf s)) = max_iterations s"
  "confidence_threshold (snd (coordinate_parallel_analysis P d rf s)) = confidence_threshold s"
  "decisions (snd (coordinate_parallel_analysis P d rf s)) = decisions s"
  "llm_calls (snd (coordinate_parallel_analysis P d rf s)) = llm_calls s + 12"
  "all_analyses (snd (coordinate_parallel_analysis P d rf s))
     = all_analyses s @ fst (coordinate_parallel_analysis P d rf s)"
  by (simp_all add: coordinate_parallel_analysis_def Let_def split_beta
      tech_agent_analyze_snd simulate_snd set_phase_def)

lemma validate_analyses_fields:
  "phase_log (snd (validate_analyses P as d s)) = phase_log s @ [VALIDATION]"
  "iteration (snd (validate_analyses P as d s)) = iteration s"
  "max_iterations (snd (validate_analyses P as d s)) = max_iterations s"
  "confidence_threshold (snd (validate_analyses P as d s)) = confidence_threshold s"
  "decisions (snd (validate_analyses P as d s)) = decisions s"
  "llm_calls s \<le> llm_calls (snd (validate_analyses P as d s))"
  "all_analyses (snd (validate_analyses P as d s)) = all_analyses s"
  "current_phase (snd (validate_analyses P as d s)) = VALIDATION"
  by (simp_all add: validate_analyses_def Let_def split_beta reason_def set_phase_def)

lemma synthesize_final_decision_fields:
  "phase_log (snd (synthesize_final_decision P as v d n s)) = phase_log s @ [SYNTHESIS]"
  "iteration (snd (synthesize_final_decision P as v d n s)) = iteration s"
  "max_iterations (snd (synthesize_final_decision P as v d n s)) = max_iterations s"
  "confidence_threshold (snd (synthesize_final_decision P as v d n s)) = confidence_threshold s"
  "decisions (snd (synthesize_final_decision P as v d n s)) = decisions s"
  "llm_calls (snd (synthesize_final_decision P as v d n s)) = llm_calls s + 1"
  "all_analyses (snd (synthesize_final_decision P as v d n s)) = all_analyses s"
  "current_phase (snd (synthesize_final_decision P as v d n s)) = SYNTHESIS"
  by (simp_all add: synthesize_final_decision_def Let_def split_beta reason_def set_phase_def)

lemma refine_analyses_fields:
  "fst (refine_analyses as v d s) = as"
  "phase_log (snd (refine_analyses as v d s)) = phase_log s @ [REFINEMENT]"
  "iteration (snd (refine_analyses as v d s)) = iteration s + 1"
  "max_iterations (snd (refine_analyses as v d s)) = max_iterations s"
  "confidence_threshold (snd (refine_analyses as v d s)) = confidence_threshold s"
  "decisions (snd (refine_analyses as v d s)) = decisions s"
  "llm_calls (snd (refine_analyses as v d s)) = llm_calls s"
  "all_analyses (snd (refine_analyses as v d s)) = all_analyses s"
  by (simp_all add: refine_analyses_def Let_def set_phase_def)

lemma validate_nonempty_snd:
  "as \<noteq> [] \<Longrightarrow> llm_calls (snd (validate_analyses P as d s)) = llm_calls s + 1"
  by (simp add: validate_analyses_def Let_def split_beta reason_def set_phase_def)

text \<open>
  The double precision mean of four midpoints none of which is above medium does not
  exceed the midpoint of medium: the 24 cases, computed.
\<close>

lemma fl_fractions:
  "fl (3 / 10) = 5404319552844595 / 2 ^ 54"
  "fl (1 / 5) = 3602879701896397 / 2 ^ 54"
  "fl (1 / 4) = 1 / 4"
  "fl (2 / 5) = 3602879701896397 / 2 ^ 53"
  "fl (3 / 5) = 5404319552844595 / 2 ^ 53"
  "fl (4 / 5) = 3602879701896397 / 2 ^ 52"
  "fl (19 / 20) = 4278419646001971 / 2 ^ 52"
  by (simp_all add: fl_eval)

lemma fl_medium_bounds: "fl 0.60 \<le> 0.60" "fl 0.60 < 0.75"
  by (simp_all add: fl_fractions)

lemma mean4_levels:
  assumes "a \<in> {VERY_LOW, LOW, MEDIUM}" "b \<in> {LOW, MEDIUM}" "c \<in> {LOW, MEDIUM}"
    "d \<in> {LOW, MEDIUM}"
  shows "fdiv (fsum [confidences a, confidences b, confidences c, confidences d]) 4
           \<le> fl 0.60"
proof -
  have "a = VERY_LOW \<or> a = LOW \<or> a = MEDIUM" "b = LOW \<or> b = MEDIUM"
    "c = LOW \<or> c = MEDIUM" "d = LOW \<or> d = MEDIUM"
    using assms by auto
  then show ?thesis
    by (elim disjE) (simp_all add: fl_eval)
qed


text \<open>
  The shape of every run of \<open>analyze_project\<close>: the analyses \<open>as\<close> made in the run, the
  validation result \<open>v\<close>, the decision \<open>fd\<close>, and the effect on the state.
\<close>

lemma analyze_project_shape:
  "\<exists>as (v :: validation) fd.
     fst (analyze_project P req s) = Inr fd
     \<and> all_analyses (snd (analyze_project P req s)) = all_analyses s @ as
     \<and> length as = 4
     \<and> (\<forall>a\<in>set as. confidence a \<in> {VERY_LOW, LOW, MEDIUM})
     \<and> v_confidence v
         = fdiv (fsum (map (\<lambda>a. confidences (confidence a)) as)) (real (length as))
     \<and> needs_refinement v = (v_confidence v < confidence_threshold s)
     \<and> v_confidence v \<le> fl 0.60
     \<and> fd_confidence fd = MEDIUM
     \<and> phase_log (snd (analyze_project P req s))
         = phase_log s @ [PLANNING]
           @ (if needs_external_research (fst (decide_strategy P req s))
              then [INFORMATION_GATHERING] else [])
           @ [PARALLEL_ANALYSIS, VALIDATION]
           @ (if v_confidence v < confidence_threshold s \<and> iteration s < max_iterations s
              then [REFINEMENT] else [])
           @ [SYNTHESIS]
     \<and> iteration (snd (analyze_project P req s))
         = iteration s
           + (if v_confidence v < confidence_threshold s \<and> iteration s < max_iterations s
              then 1 else 0)
     \<and> max_iterations (snd (analyze_project P req s)) = max_iterations s
     \<and> confidence_threshold (snd (analyze_project P req s)) = confidence_threshold s
     \<and> current_phase (snd (analyze_project P req s)) = SYNTHESIS
     \<and> llm_calls s + 15 \<le> llm_calls (snd (analyze_project P req s))
     \<and> (if needs_external_research (fst (decide_strategy P req s)) then True
         else llm_calls (snd (analyze_project P req s)) = llm_calls s + 15)
     \<and> length (decisions (snd (analyze_project P req s))) = length (decisions s) + 1
     \<and> od_phase (last (decisions (snd (analyze_project P req s)))) = PLANNING
     \<and> limitations_iterations fd = iteration (snd (analyze_project P req s))"
proof -
  define desc where "desc = project_description req"
  define st where "st = decide_strategy P req s"
  define rf where "rf = (if needs_external_research (fst st)
      then coordinate_research P (research_queries (fst st)) desc (snd st) else ([], snd st))"
  define pa where "pa = coordinate_parallel_analysis P desc (fst rf) (snd rf)"
  define vr where "vr = validate_analyses P (fst pa) desc (snd pa)"
  obtain t c e m where pa4: "fst pa = [t, c, e, m]"
    and cf: "confidence t \<in> {VERY_LOW, LOW, MEDIUM}" "confidence c \<in> {LOW, MEDIUM}"
      "confidence e \<in> {LOW, MEDIUM}" "confidence m \<in> {LOW, MEDIUM}"
    using coordinate_parallel_analysis_fst [of P desc "fst rf" "snd rf"]
    unfolding pa_def by blast
  have ne: "fst pa \<noteq> []" using pa4 by simp
  have len: "length (fst pa) = 4" using pa4 by simp
  have lv: "\<forall>a\<in>set (fst pa). confidence a \<in> {VERY_LOW, LOW, MEDIUM}"
    using cf unfolding pa4 by auto
  obtain v where v: "fst vr = Inr v"
    "v_confidence v = fdiv (fsum (map (\<lambda>a. confidences (confidence a)) (fst pa)))
        (real (length (fst pa)))"
    "needs_refinement v = (v_confidence v < confidence_threshold (snd pa))"
    using validate_nonempty [OF ne, of P desc "snd pa"] unfolding vr_def by blast
  have vle: "v_confidence v \<le> fl 0.60"
    unfolding v(2) pa4 using mean4_levels [OF cf] by simp
  have nothigh: "\<not> v_confidence v > 0.75"
    using vle fl_medium_bounds(2) by linarith
  define F where "F \<longleftrightarrow> v_confidence v < confidence_threshold (snd vr)
      \<and> iteration (snd vr) < max_iterations (snd vr)"
  define r5 where "r5 = (if F then refine_analyses (fst pa) v desc (snd vr)
      else (fst pa, snd vr))"
  define sy where "sy = synthesize_final_decision P (fst r5) v desc (project_name req) (snd r5)"
  have run: "analyze_project P req s = (Inr (fst sy), snd sy)"
    using v(1)
    unfolding analyze_project_def sy_def r5_def F_def vr_def pa_def rf_def st_def desc_def
    by (simp add: Let_def split_beta)
  have rf_f: "phase_log (snd rf) = phase_log s @ [PLANNING]
        @ (if needs_external_research (fst st) then [INFORMATION_GATHERING] else [])"
    "iteration (snd rf) = iteration s" "max_iterations (snd rf) = max_iterations s"
    "confidence_threshold (snd rf) = confidence_threshold s"
    "llm_calls s + 1 \<le> llm_calls (snd rf)"
    "\<not> needs_external_research (fst st) \<Longrightarrow> llm_calls (snd rf) = llm_calls s + 1"
    "length (decisions (snd rf)) = length (decisions s) + 1"
    "od_phase (last (decisions (snd rf))) = PLANNING"
    "all_analyses (snd rf) = all_analyses s"
    using coordinate_research_fields(6) [of "snd st" P "research_queries (fst st)" desc]
    unfolding rf_def st_def
    by (simp_all add: decide_strategy_fields coordinate_research_fields)
  have pa_f: "confidence_threshold (snd pa) = confidence_threshold s"
    "all_analyses (snd pa) = all_analyses s @ fst pa"
    unfolding pa_def
    by (simp_all add: coordinate_parallel_analysis_fields rf_f(4,9))
  have vr_f: "phase_log (snd vr) = phase_log (snd rf) @ [PARALLEL_ANALYSIS, VALIDATION]"
    "iteration (snd vr) = iteration s" "max_iterations (snd vr) = max_iterations s"
    "confidence_threshold (snd vr) = confidence_threshold s"
    "llm_calls (snd vr) = llm_calls (snd rf) + 13"
    "decisions (snd vr) = decisions (snd rf)"
    "all_analyses (snd vr) = all_analyses s @ fst pa"
    using validate_nonempty_snd [OF ne, of P desc "snd pa"] rf_f(2-4) pa_f(2)
    unfolding vr_def pa_def
    by (simp_all add: validate_analyses_fields coordinate_parallel_analysis_fields)
  have F: "F \<longleftrightarrow> v_confidence v < confidence_threshold s \<and> iteration s < max_iterations s"
    unfolding F_def by (simp add: vr_f)
  have r5_f: "phase_log (snd r5) = phase_log (snd vr) @ (if F then [REFINEMENT] else [])"
    "iteration (snd r5) = iteration s + (if F then 1 else 0)"
    "max_iterations (snd r5) = max_iterations s"
    "confidence_threshold (snd r5) = confidence_threshold s"
    "llm_calls (snd r5) = llm_calls (snd vr)"
    "decisions (snd r5) = decisions (snd vr)"
    "all_analyses (snd r5) = all_analyses s @ fst pa"
    unfolding r5_def by (simp_all add: refine_analyses_fields vr_f)
  have sy_f: "phase_log (snd sy) = phase_log (snd r5) @ [SYNTHESIS]"
    "iteration (snd sy) = iteration (snd r5)"
    "max_iterations (snd sy) = max_iterations s"
    "confidence_threshold (snd sy) = confidence_threshold s"
    "llm_calls (snd sy) = llm_calls (snd r5) + 1"
    "decisions (snd sy) = decisions (snd r5)"
    "all_analyses (snd sy) = all_analyses s @ fst pa"
    "current_phase (snd sy) = SYNTHESIS"
    unfolding sy_def by (simp_all add: synthesize_final_decision_fields r5_f)
  have fd: "fd_confidence (fst sy) = MEDIUM"
    "limitations_iterations (fst sy) = iteration (snd sy)"
    unfolding sy_def using nothigh
    by (simp_all add: synthesize_final_decision_def Let_def split_beta reason_def set_phase_def)
  have a: "fst (analyze_project P req s) = Inr (fst sy)"
    and b: "snd (analyze_project P req s) = snd sy"
    by (simp_all add: run)
  have c1: "phase_log (snd sy) = phase_log s @ [PLANNING]
           @ (if needs_external_research (fst st) then [INFORMATION_GATHERING] else [])
           @ [PARALLEL_ANALYSIS, VALIDATION]
           @ (if v_confidence v < confidence_threshold s \<and> iteration s < max_iterations s
              then [REFINEMENT] else [])
           @ [SYNTHESIS]"
    using F by (simp add: sy_f(1) r5_f(1) vr_f(1) rf_f(1))
  have c2: "iteration (snd sy) = iteration s
           + (if v_confidence v < confidence_threshold s \<and> iteration s < max_iterations s
              then 1 else 0)"
    using F by (simp add: sy_f(2) r5_f(2))
  have c3: "llm_calls s + 15 \<le> llm_calls (snd sy)"
    using rf_f(5) by (simp add: sy_f(5) r5_f(5) vr_f(5))
  have c4: "if needs_external_research (fst st) then True
      else llm_calls (snd sy) = llm_calls s + 15"
    using rf_f(6) by (simp add: sy_f(5) r5_f(5) vr_f(5))
  have c5: "length (decisions (snd sy)) = length (decisions s) + 1"
    "od_phase (last (decisions (snd sy))) = PLANNING"
    by (simp_all add: sy_f(6) r5_f(6) vr_f(6) rf_f(7,8))
  have c6: "needs_refinement v = (v_confidence v < confidence_threshold s)"
    using v(3) by (simp add: pa_f(1))
  show ?thesis
    unfolding b st_def [symmetric]
    apply (rule exI [of _ "fst pa"], rule exI [of _ v], rule exI [of _ "fst sy"])
    apply (insert a sy_f(7) len lv v(2) c6 vle fd(1) c1 c2 sy_f(3,4,8) c3 c4 c5 fd(2))
    apply (intro conjI)
    apply assumption+
    done
qed

lemma count_new_phases:
  "count_list ([PLANNING] @ (if r then [INFORMATION_GATHERING] else [])
      @ [PARALLEL_ANALYSIS, VALIDATION] @ (if f then [REFINEMENT] else []) @ [SYNTHESIS])
     REFINEMENT = (if f then 1 else 0)"
  "count_list ([PLANNING] @ (if r then [INFORMATION_GATHERING] else [])
      @ [PARALLEL_ANALYSIS, VALIDATION] @ (if f then [REFINEMENT] else []) @ [SYNTHESIS])
     VALIDATION = 1"
  "last ([PLANNING] @ (if r then [INFORMATION_GATHERING] else [])
      @ [PARALLEL_ANALYSIS, VALIDATION] @ (if f then [REFINEMENT] else []) @ [SYNTHESIS])
     = SYNTHESIS"
  by simp_all

text \<open>One run: what it appends to the phase log and how it moves the iteration counter.\<close>

lemma analyze_project_step:
  "\<exists>new. phase_log (snd (analyze_project P req s)) = phase_log s @ new
     \<and> iteration (snd (analyze_project P req s)) = iteration s + count_list new REFINEMENT
     \<and> count_list new REFINEMENT \<le> 1
     \<and> count_list new VALIDATION = 1
     \<and> (if iteration s < max_iterations s then True else count_list new REFINEMENT = 0)
     \<and> last new = SYNTHESIS
     \<and> max_iterations (snd (analyze_project P req s)) = max_iterations s"
proof -
  obtain as and v :: validation and fd where h:
    "phase_log (snd (analyze_project P req s))
         = phase_log s @ [PLANNING]
           @ (if needs_external_research (fst (decide_strategy P req s))
              then [INFORMATION_GATHERING] else [])
           @ [PARALLEL_ANALYSIS, VALIDATION]
           @ (if v_confidence v < confidence_threshold s \<and> iteration s < max_iterations s
              then [REFINEMENT] else [])
           @ [SYNTHESIS]"
    "iteration (snd (analyze_project P req s))
         = iteration s
           + (if v_confidence v < confidence_threshold s \<and> iteration s < max_iterations s
              then 1 else 0)"
    "max_iterations (snd (analyze_project P req s)) = max_iterations s"
    using analyze_project_shape [of P req s] by blast
  let ?new = "[PLANNING]
           @ (if needs_external_research (fst (decide_strategy P req s))
              then [INFORMATION_GATHERING] else [])
           @ [PARALLEL_ANALYSIS, VALIDATION]
           @ (if v_confidence v < confidence_threshold s \<and> iteration s < max_iterations s
              then [REFINEMENT] else [])
           @ [SYNTHESIS]"
  have "phase_log (snd (analyze_project P req s)) = phase_log s @ ?new"
    using h(1) by simp
  moreover have "iteration (snd (analyze_project P req s))
      = iteration s + count_list ?new REFINEMENT"
    unfolding h(2) count_new_phases(1) by simp
  moreover have "count_list ?new REFINEMENT \<le> 1"
    unfolding count_new_phases(1) by simp
  moreover have "count_list ?new VALIDATION = 1"
    unfolding count_new_phases(2) by simp
  moreover have "if iteration s < max_iterations s then True
      else count_list ?new REFINEMENT = 0"
    unfolding count_new_phases(1) by simp
  moreover have "last ?new = SYNTHESIS"
    unfolding count_new_phases(3) by simp
  ultimately show ?thesis using h(3) by blast
qed


section \<open>The run: confidence never above medium\<close>

text \<open>
  Claim C10. Every analysis made by the parallel analysis has a confidence level among
  very_low, low and medium: the technology agent's level comes from a score that starts
  at 0.7 and is only decreased, and the simulated cost, ethical and market analyses are
  given medium or low. Hence the aggregate confidence that the validation computes for
  them is at most 0.60, needs_refinement is true against the threshold 0.75, and the
  confidence of the final decision of every run is MEDIUM, never HIGH.
\<close>

theorem parallel_analysis_confidence_at_most_medium:
  "(\<forall>a\<in>set (fst (coordinate_parallel_analysis P desc rf s)).
       confidence a \<in> {VERY_LOW, LOW, MEDIUM})
   \<and> calculate_confidence maturity complexity gaps \<in> {VERY_LOW, LOW, MEDIUM}
   \<and> confidence (fst (simulate_dimension_analysis P d desc rf s)) \<in> {LOW, MEDIUM}
   \<and> (\<exists>v. fst (validate_analyses P (fst (coordinate_parallel_analysis P desc rf s)) desc s')
            = Inr v
          \<and> v_confidence v \<le> 0.60
          \<and> (confidence_threshold s' = 0.75 \<longrightarrow> needs_refinement v))
   \<and> (\<exists>fd. fst (analyze_project P req s) = Inr fd \<and> fd_confidence fd = MEDIUM
          \<and> fd_confidence fd \<noteq> HIGH)"
proof -
  obtain t c e m where pa4: "fst (coordinate_parallel_analysis P desc rf s) = [t, c, e, m]"
    and cf: "confidence t \<in> {VERY_LOW, LOW, MEDIUM}" "confidence c \<in> {LOW, MEDIUM}"
      "confidence e \<in> {LOW, MEDIUM}" "confidence m \<in> {LOW, MEDIUM}"
    using coordinate_parallel_analysis_fst [of P desc rf s] by blast
  have a: "\<forall>a\<in>set (fst (coordinate_parallel_analysis P desc rf s)).
       confidence a \<in> {VERY_LOW, LOW, MEDIUM}"
    using cf unfolding pa4 by auto
  obtain v where v: "fst (validate_analyses P [t, c, e, m] desc s') = Inr v"
    "v_confidence v = fdiv (fsum (map (\<lambda>a. confidences (confidence a)) [t, c, e, m]))
        (real (length [t, c, e, m]))"
    "needs_refinement v = (v_confidence v < confidence_threshold s')"
    using validate_nonempty [of "[t, c, e, m]" P desc s'] by auto
  have vle: "v_confidence v \<le> fl 0.60"
    unfolding v(2) using mean4_levels [OF cf] by simp
  have v1: "v_confidence v \<le> 0.60"
    using vle fl_medium_bounds(1) by linarith
  have v2: "confidence_threshold s' = 0.75 \<longrightarrow> needs_refinement v"
    using vle fl_medium_bounds(2) v(3) by auto
  have d: "\<exists>v. fst (validate_analyses P (fst (coordinate_parallel_analysis P desc rf s)) desc s')
            = Inr v
          \<and> v_confidence v \<le> 0.60
          \<and> (confidence_threshold s' = 0.75 \<longrightarrow> needs_refinement v)"
    unfolding pa4 using v(1) v1 v2 by blast
  have e: "\<exists>fd. fst (analyze_project P req s) = Inr fd \<and> fd_confidence fd = MEDIUM
          \<and> fd_confidence fd \<noteq> HIGH"
    using analyze_project_shape [of P req s] by auto
  show ?thesis
    using a d e calculate_confidence_le_medium [of maturity complexity gaps]
      simulate_confidence [of P d desc rf s]
    by blast
qed

theorem parallel_analysis_confidence_at_most_medium_witness:
  "confidence (hd (fst (coordinate_parallel_analysis ex_providers ''d'' [] init_system)))
     \<in> {VERY_LOW, LOW, MEDIUM}
   \<and> (\<exists>v. fst (validate_analyses ex_providers
              (fst (coordinate_parallel_analysis ex_providers ''d'' [] init_system)) ''d''
              init_system) = Inr v
          \<and> v_confidence v \<le> 0.60 \<and> needs_refinement v)
   \<and> (\<exists>fd. fst (analyze_project ex_providers (ex_request ''d'') init_system) = Inr fd
          \<and> fd_confidence fd = MEDIUM)"
proof -
  have t: "confidence_threshold init_system = 0.75"
    by (simp add: init_system_def CONFIDENCE_THRESHOLD_def)
  obtain t c e m where
    pa4: "fst (coordinate_parallel_analysis ex_providers ''d'' [] init_system) = [t, c, e, m]"
    using coordinate_parallel_analysis_fst [of ex_providers "''d''" "[]" init_system]
    by blast
  show ?thesis
    using parallel_analysis_confidence_at_most_medium
      [of ex_providers "''d''" "[]" init_system "''m''" "''c''" 0 "''cost''" init_system
          "ex_request ''d''"]
      t
    unfolding pa4 by auto
qed

section \<open>The run: the iteration counter and the refinement pass\<close>



text \<open>
  Claim C1 describes a loop: refine, validate again, and repeat until the confidence
  reaches the threshold or the counter reaches max_iterations. The source announces it
  (\<^verbatim>\<open>ITERATES until confident\<close> in the module text, \<^verbatim>\<open>Maximum refinement iterations\<close> at
  \<^verbatim>\<open>MAX_ITERATIONS\<close>, \<^verbatim>\<open>iteration i/max\<close> in the progress line) but
  \<^verbatim>\<open>analyze_project\<close> has a single \<^verbatim>\<open>if\<close>. What the code does: every run validates
  exactly once and refines at most once, and after a refinement pass the next phase is
  the synthesis. For a fresh orchestrator (threshold 0.75, max_iterations 3) every run
  makes one refinement pass and then synthesizes with the counter at 1, below
  max_iterations, and with the aggregate confidence of its analyses still below the
  threshold.
\<close>

theorem refinement_runs_once_without_revalidation:
  "(\<exists>new. phase_log (snd (analyze_project P req s)) = phase_log s @ new
      \<and> count_list new VALIDATION = 1 \<and> count_list new REFINEMENT \<le> 1)
   \<and> phase_log (snd (analyze_project P req init_system))
       = [PLANNING]
         @ (if needs_external_research (fst (decide_strategy P req init_system))
            then [INFORMATION_GATHERING] else [])
         @ [PARALLEL_ANALYSIS, VALIDATION, REFINEMENT, SYNTHESIS]
   \<and> iteration (snd (analyze_project P req init_system)) = 1
   \<and> max_iterations (snd (analyze_project P req init_system)) = 3
   \<and> length (all_analyses (snd (analyze_project P req init_system))) = 4
   \<and> fdiv (fsum (map (\<lambda>a. confidences (confidence a))
                   (all_analyses (snd (analyze_project P req init_system)))))
        (real (length (all_analyses (snd (analyze_project P req init_system)))))
       < confidence_threshold (snd (analyze_project P req init_system))
   \<and> (\<exists>fd. fst (analyze_project P req init_system) = Inr fd
          \<and> limitations_iterations fd = 1)"
proof -
  have a: "\<exists>new. phase_log (snd (analyze_project P req s)) = phase_log s @ new
      \<and> count_list new VALIDATION = 1 \<and> count_list new REFINEMENT \<le> 1"
    using analyze_project_step [of P req s] by blast
  have i: "phase_log init_system = []" "iteration init_system = 0"
    "max_iterations init_system = 3" "confidence_threshold init_system = 0.75"
    "all_analyses init_system = []"
    by (simp_all add: init_system_def MAX_ITERATIONS_def CONFIDENCE_THRESHOLD_def)
  let ?s' = "snd (analyze_project P req init_system)"
  obtain as and v :: validation and fd where h:
    "fst (analyze_project P req init_system) = Inr fd"
    "all_analyses ?s' = all_analyses init_system @ as"
    "length as = 4"
    "v_confidence v
         = fdiv (fsum (map (\<lambda>a. confidences (confidence a)) as)) (real (length as))"
    "v_confidence v \<le> fl 0.60"
    "phase_log ?s'
         = phase_log init_system @ [PLANNING]
           @ (if needs_external_research (fst (decide_strategy P req init_system))
              then [INFORMATION_GATHERING] else [])
           @ [PARALLEL_ANALYSIS, VALIDATION]
           @ (if v_confidence v < confidence_threshold init_system
                 \<and> iteration init_system < max_iterations init_system
              then [REFINEMENT] else [])
           @ [SYNTHESIS]"
    "iteration ?s'
         = iteration init_system
           + (if v_confidence v < confidence_threshold init_system
                 \<and> iteration init_system < max_iterations init_system
              then 1 else 0)"
    "max_iterations ?s' = max_iterations init_system"
    "confidence_threshold ?s' = confidence_threshold init_system"
    "limitations_iterations fd = iteration ?s'"
    using analyze_project_shape [of P req init_system] by blast
  have low: "v_confidence v < 0.75"
    using h(5) fl_medium_bounds(2) by linarith
  have b: "phase_log ?s'
       = [PLANNING]
         @ (if needs_external_research (fst (decide_strategy P req init_system))
            then [INFORMATION_GATHERING] else [])
         @ [PARALLEL_ANALYSIS, VALIDATION, REFINEMENT, SYNTHESIS]"
    unfolding h(6) using low by (simp add: i)
  have c: "iteration ?s' = 1"
    unfolding h(7) using low by (simp add: i)
  have d: "max_iterations ?s' = 3" "length (all_analyses ?s') = 4"
    by (simp_all add: h(8) h(2) h(3) i)
  have e: "fdiv (fsum (map (\<lambda>a. confidences (confidence a)) (all_analyses ?s')))
        (real (length (all_analyses ?s'))) < confidence_threshold ?s'"
    using low h(4) by (simp add: h(2) h(9) i)
  have f: "\<exists>fd. fst (analyze_project P req init_system) = Inr fd
          \<and> limitations_iterations fd = 1"
    using h(1) h(10) c by simp
  show ?thesis
    using a b c d e f by blast
qed

section \<open>The run: no check of the project description\<close>



end
